theory Spec2Isabelle
  imports Complex_Main
begin

section \<open>The hedging trader of \<^verbatim>\<open>src/main.py\<close>\<close>

text \<open>
  The class \<^verbatim>\<open>Trader\<close> is embedded as a record of its attributes and one
  function per method. Conventions of the embedding:
  \<^item> Python numbers (\<^verbatim>\<open>float\<close>, and the \<^verbatim>\<open>int\<close> zero that
    \<^verbatim>\<open>last_units\<close> starts with) are the type \<open>real\<close>. The methods are
    embedded with exact arithmetic; \<open>first_trade_with dbl\<close> is the first trade with
    every arithmetic result rounded to a double, for the property that rounding
    decides. Infinities and NaN are not represented.
  \<^item> The module-level \<^verbatim>\<open>client\<close> is a \<open>gateway\<close>: for every request it
    answers from the history of the calls made so far, either with a value or with an
    exception (\<open>Inl\<close>). Every call of the source passes \<^verbatim>\<open>symbol = self.symbol\<close>,
    which no method assigns, so the symbol is not repeated in the calls.
  \<^item> A method returns the state it leaves behind together with the exception that
    leaves it, if any (\<open>Some e\<close>); the attributes assigned before the exception was
    raised stay assigned.
  \<^item> \<^verbatim>\<open>print\<close> and \<^verbatim>\<open>report_trade\<close> only write to the console; an
    order answer always carries the two keys \<^verbatim>\<open>report_trade\<close> reads.
  \<^item> A ticker answer that cannot be read (a missing key, a string that
    \<^verbatim>\<open>float\<close> rejects) is an exception of the ticker request; an entry of a
    position report that cannot be read raises when the loop reaches it.
  \<^item> The callback of the socket runs one message to its end before the next.
\<close>

subsection \<open>Data\<close>

datatype order_side = BUY | SELL

datatype error = GatewayError | ParseError

record order =
  orderId :: int
  origQty :: real

text \<open>The calls made to the exchange client, with the arguments that vary.\<close>

datatype call =
    CreateOrder order_side real string
  | SymbolTicker
  | PositionInfo

text \<open>
  \<^verbatim>\<open>futures_create_order(side, type = "MARKET", quantity, positionSide)\<close>,
  \<^verbatim>\<open>float(futures_symbol_ticker(...)['price'])\<close> and
  \<^verbatim>\<open>futures_position_information(...)\<close>, whose answer is a list of entries.
  The loop of \<^verbatim>\<open>close_all_positions\<close> reads one entry at a time: an entry is
  \<open>Inr (pos["positionSide"], float(pos["positionAmt"]))\<close>, or \<open>Inl e\<close> when
  reading one of the two raises \<open>e\<close>. The first argument is the list of the calls
  already made.
\<close>

record gateway =
  create_order :: "call list \<Rightarrow> order_side \<Rightarrow> real \<Rightarrow> string \<Rightarrow> error + order"
  symbol_ticker :: "call list \<Rightarrow> error + real"
  position_information :: "call list \<Rightarrow> error + (error + string \<times> real) list"

record trader =
  symbol :: string
  bar_length :: string
  base_units :: real
  int_units :: real
  leverage :: int
  cum_profits :: real
  side :: string
  close :: real
  long_entry_add :: real
  short_entry_deduct :: real
  long_tp_add :: real
  long_sl_deduct :: real
  short_tp_deduct :: real
  short_sl_add :: real
  long_entry :: real
  short_entry :: real
  long_tp :: real
  long_sl :: real
  short_tp :: real
  short_sl :: real
  last_units :: real
  last_direction :: "string option"

text \<open>The trader together with the log of the calls it has made to the client.\<close>

record world =
  tr :: trader
  calls :: "call list"

subsection \<open>Construction\<close>

text \<open>\<^verbatim>\<open>Trader.__init__\<close>, lines 41-75.\<close>

definition init ::
  "string \<Rightarrow> string \<Rightarrow> real \<Rightarrow> int \<Rightarrow> string \<Rightarrow>
   real \<Rightarrow> real \<Rightarrow> real \<Rightarrow> real \<Rightarrow> real \<Rightarrow> real \<Rightarrow> trader" where
  "init smb bl units lev sd lea sed lta lsd std ssa =
     \<lparr> symbol = smb, bar_length = bl, base_units = units, int_units = units,
       leverage = lev, cum_profits = 0, side = sd, close = 0,
       long_entry_add = lea, short_entry_deduct = sed, long_tp_add = lta,
       long_sl_deduct = lsd, short_tp_deduct = std, short_sl_add = ssa,
       long_entry = 0, short_entry = 0, long_tp = 0, long_sl = 0,
       short_tp = 0, short_sl = 0, last_units = 0, last_direction = None \<rparr>"

definition init_world ::
  "string \<Rightarrow> string \<Rightarrow> real \<Rightarrow> int \<Rightarrow> string \<Rightarrow>
   real \<Rightarrow> real \<Rightarrow> real \<Rightarrow> real \<Rightarrow> real \<Rightarrow> real \<Rightarrow> world" where
  "init_world smb bl units lev sd lea sed lta lsd std ssa =
     \<lparr> tr = init smb bl units lev sd lea sed lta lsd std ssa, calls = [] \<rparr>"

subsection \<open>Calls to the client\<close>

definition place_order ::
  "gateway \<Rightarrow> world \<Rightarrow> order_side \<Rightarrow> real \<Rightarrow> string \<Rightarrow> world \<times> (error + order)" where
  "place_order g w sd q ps =
     (w\<lparr>calls := calls w @ [CreateOrder sd q ps]\<rparr>, create_order g (calls w) sd q ps)"

definition get_ticker :: "gateway \<Rightarrow> world \<Rightarrow> world \<times> (error + real)" where
  "get_ticker g w = (w\<lparr>calls := calls w @ [SymbolTicker]\<rparr>, symbol_ticker g (calls w))"

definition get_positions ::
  "gateway \<Rightarrow> world \<Rightarrow> world \<times> (error + (error + string \<times> real) list)" where
  "get_positions g w =
     (w\<lparr>calls := calls w @ [PositionInfo]\<rparr>, position_information g (calls w))"

subsection \<open>\<^verbatim>\<open>first_trade\<close>, lines 77-162\<close>

text \<open>
  The assignments of lines 102-117 (side LONG) and 138-153 (side SHORT), in the
  order of the source, from the price the ticker answered.
\<close>

definition set_levels_long :: "real \<Rightarrow> trader \<Rightarrow> trader" where
  "set_levels_long price t =
     (let t1 = t\<lparr>long_entry := price\<rparr>;
          t2 = t1\<lparr>short_entry := long_entry t1 - short_entry_deduct t1 * long_entry t1\<rparr>;
          t3 = t2\<lparr>long_tp := long_entry t2 + long_tp_add t2 * long_entry t2\<rparr>;
          t4 = t3\<lparr>long_sl := long_entry t3 - long_sl_deduct t3 * long_entry t3\<rparr>;
          t5 = t4\<lparr>short_tp := short_entry t4 - short_tp_deduct t4 * short_entry t4\<rparr>;
          t6 = t5\<lparr>short_sl := short_entry t5 + short_sl_add t5 * short_entry t5\<rparr>;
          t7 = t6\<lparr>last_units := int_units t6\<rparr>
      in t7\<lparr>last_direction := Some ''LONG''\<rparr>)"

definition set_levels_short :: "real \<Rightarrow> trader \<Rightarrow> trader" where
  "set_levels_short price t =
     (let t1 = t\<lparr>short_entry := price\<rparr>;
          t2 = t1\<lparr>long_entry := short_entry t1 + long_entry_add t1 * short_entry t1\<rparr>;
          t3 = t2\<lparr>short_tp := short_entry t2 - short_tp_deduct t2 * short_entry t2\<rparr>;
          t4 = t3\<lparr>short_sl := short_entry t3 + short_sl_add t3 * short_entry t3\<rparr>;
          t5 = t4\<lparr>long_tp := long_entry t4 + long_tp_add t4 * long_entry t4\<rparr>;
          t6 = t5\<lparr>long_sl := long_entry t5 - long_sl_deduct t5 * long_entry t5\<rparr>;
          t7 = t6\<lparr>last_units := int_units t6 * -1\<rparr>
      in t7\<lparr>last_direction := Some ''SHORT''\<rparr>)"

text \<open>
  The \<^verbatim>\<open>except\<close> clause of line 160 prints and raises again, so the exception
  is returned. A \<^verbatim>\<open>side\<close> that is neither string does nothing.
\<close>

definition first_trade :: "gateway \<Rightarrow> world \<Rightarrow> world \<times> error option" where
  "first_trade g w =
     (if side (tr w) = ''LONG'' then
        (case place_order g w BUY (int_units (tr w)) ''LONG'' of
           (w1, Inl e) \<Rightarrow> (w1, Some e)
         | (w1, Inr ord) \<Rightarrow>
             (case get_ticker g w1 of
                (w2, Inl e) \<Rightarrow> (w2, Some e)
              | (w2, Inr price) \<Rightarrow> (w2\<lparr>tr := set_levels_long price (tr w2)\<rparr>, None)))
      else if side (tr w) = ''SHORT'' then
        (case place_order g w SELL (int_units (tr w)) ''SHORT'' of
           (w1, Inl e) \<Rightarrow> (w1, Some e)
         | (w1, Inr ord) \<Rightarrow>
             (case get_ticker g w1 of
                (w2, Inl e) \<Rightarrow> (w2, Some e)
              | (w2, Inr price) \<Rightarrow> (w2\<lparr>tr := set_levels_short price (tr w2)\<rparr>, None)))
      else (w, None))"

subsection \<open>Double arithmetic\<close>

text \<open>
  Python's \<^verbatim>\<open>float\<close> is the IEEE binary64 format, and every \<^verbatim>\<open>+\<close>,
  \<^verbatim>\<open>-\<close> and \<^verbatim>\<open>*\<close> of two floats returns the exact result rounded to the
  nearest double, ties to the even significand. \<open>dbl\<close> is that rounding on the
  reals: \<open>binade x\<close> is the exponent of the binade of \<open>x\<close> (at least -1022, where the
  subnormal numbers begin), \<open>ulp x\<close> the distance between neighbouring doubles
  there (53 significant bits), and \<open>x\<close> is rounded to the nearest multiple of
  \<open>ulp x\<close>. The rounding is the one of the format as long as the result stays below
  \<open>2 ^ 1024\<close>, where Python's float becomes infinite.
\<close>

definition round_even :: "real \<Rightarrow> int" where
  "round_even y =
     (let f = \<lfloor>y\<rfloor> in
      if y - of_int f < 1 / 2 then f
      else if 1 / 2 < y - of_int f then f + 1
      else if even f then f else f + 1)"

definition binade :: "real \<Rightarrow> int" where
  "binade x = max \<lfloor>log 2 \<bar>x\<bar>\<rfloor> (- 1022)"

definition ulp :: "real \<Rightarrow> real" where
  "ulp x = 2 powr (of_int (binade x - 52))"

definition dbl :: "real \<Rightarrow> real" where
  "dbl x = (if x = 0 then 0 else of_int (round_even (x / ulp x)) * ulp x)"

text \<open>
  Lines 102-117 and 138-153 with every arithmetic result passed through a rounding
  \<open>r\<close>, and \<^verbatim>\<open>first_trade\<close> with these assignments. With \<open>dbl\<close> for \<open>r\<close>
  they are the assignments of the program on doubles; with the identity they are
  \<open>set_levels_long\<close>, \<open>set_levels_short\<close> and \<open>first_trade\<close>.
\<close>

definition set_levels_long_with :: "(real \<Rightarrow> real) \<Rightarrow> real \<Rightarrow> trader \<Rightarrow> trader" where
  "set_levels_long_with r price t =
     (let t1 = t\<lparr>long_entry := price\<rparr>;
          t2 = t1\<lparr>short_entry := r (long_entry t1 - r (short_entry_deduct t1 * long_entry t1))\<rparr>;
          t3 = t2\<lparr>long_tp := r (long_entry t2 + r (long_tp_add t2 * long_entry t2))\<rparr>;
          t4 = t3\<lparr>long_sl := r (long_entry t3 - r (long_sl_deduct t3 * long_entry t3))\<rparr>;
          t5 = t4\<lparr>short_tp := r (short_entry t4 - r (short_tp_deduct t4 * short_entry t4))\<rparr>;
          t6 = t5\<lparr>short_sl := r (short_entry t5 + r (short_sl_add t5 * short_entry t5))\<rparr>;
          t7 = t6\<lparr>last_units := int_units t6\<rparr>
      in t7\<lparr>last_direction := Some ''LONG''\<rparr>)"

definition set_levels_short_with :: "(real \<Rightarrow> real) \<Rightarrow> real \<Rightarrow> trader \<Rightarrow> trader" where
  "set_levels_short_with r price t =
     (let t1 = t\<lparr>short_entry := price\<rparr>;
          t2 = t1\<lparr>long_entry := r (short_entry t1 + r (long_entry_add t1 * short_entry t1))\<rparr>;
          t3 = t2\<lparr>short_tp := r (short_entry t2 - r (short_tp_deduct t2 * short_entry t2))\<rparr>;
          t4 = t3\<lparr>short_sl := r (short_entry t3 + r (short_sl_add t3 * short_entry t3))\<rparr>;
          t5 = t4\<lparr>long_tp := r (long_entry t4 + r (long_tp_add t4 * long_entry t4))\<rparr>;
          t6 = t5\<lparr>long_sl := r (long_entry t5 - r (long_sl_deduct t5 * long_entry t5))\<rparr>;
          t7 = t6\<lparr>last_units := r (int_units t6 * -1)\<rparr>
      in t7\<lparr>last_direction := Some ''SHORT''\<rparr>)"

definition first_trade_with ::
  "(real \<Rightarrow> real) \<Rightarrow> gateway \<Rightarrow> world \<Rightarrow> world \<times> error option" where
  "first_trade_with r g w =
     (if side (tr w) = ''LONG'' then
        (case place_order g w BUY (int_units (tr w)) ''LONG'' of
           (w1, Inl e) \<Rightarrow> (w1, Some e)
         | (w1, Inr ord) \<Rightarrow>
             (case get_ticker g w1 of
                (w2, Inl e) \<Rightarrow> (w2, Some e)
              | (w2, Inr price) \<Rightarrow>
                  (w2\<lparr>tr := set_levels_long_with r price (tr w2)\<rparr>, None)))
      else if side (tr w) = ''SHORT'' then
        (case place_order g w SELL (int_units (tr w)) ''SHORT'' of
           (w1, Inl e) \<Rightarrow> (w1, Some e)
         | (w1, Inr ord) \<Rightarrow>
             (case get_ticker g w1 of
                (w2, Inl e) \<Rightarrow> (w2, Some e)
              | (w2, Inr price) \<Rightarrow>
                  (w2\<lparr>tr := set_levels_short_with r price (tr w2)\<rparr>, None)))
      else (w, None))"

subsection \<open>\<^verbatim>\<open>close_all_positions\<close>, lines 273-318\<close>

text \<open>
  The body of the \<^verbatim>\<open>for\<close> loop, by recursion on the entries still to visit.
  An entry that cannot be read raises, after the orders of the entries before it. An
  entry with amount zero is skipped; a LONG entry with a positive amount is sold, a
  SHORT entry with a negative amount is bought back; any other entry matches no
  branch. The first order that raises ends the loop.
\<close>

fun close_loop ::
  "gateway \<Rightarrow> world \<Rightarrow> (error + string \<times> real) list \<Rightarrow> world \<times> error option" where
  "close_loop g w [] = (w, None)"
| "close_loop g w (Inl e # ps) = (w, Some e)"
| "close_loop g w (Inr (type, amt) # ps) =
     (if amt = 0 then close_loop g w ps
      else if type = ''LONG'' \<and> amt > 0 then
        (case place_order g w SELL \<bar>amt\<bar> ''LONG'' of
           (w1, Inl e) \<Rightarrow> (w1, Some e)
         | (w1, Inr ord) \<Rightarrow> close_loop g w1 ps)
      else if type = ''SHORT'' \<and> amt < 0 then
        (case place_order g w BUY \<bar>amt\<bar> ''SHORT'' of
           (w1, Inl e) \<Rightarrow> (w1, Some e)
         | (w1, Inr ord) \<Rightarrow> close_loop g w1 ps)
      else close_loop g w ps)"

definition close_all_positions :: "gateway \<Rightarrow> world \<Rightarrow> world \<times> error option" where
  "close_all_positions g w =
     (case get_positions g w of
        (w1, Inl e) \<Rightarrow> (w1, Some e)
      | (w1, Inr positions) \<Rightarrow> close_loop g w1 positions)"

subsection \<open>\<^verbatim>\<open>hedging_loop\<close>, lines 164-271\<close>

text \<open>Lines 191-207: the hedge from LONG into SHORT.\<close>

definition hedge_short :: "gateway \<Rightarrow> world \<Rightarrow> world \<times> error option" where
  "hedge_short g w =
     (case place_order g w SELL \<bar>last_units (tr w) * 2\<bar> ''SHORT'' of
        (w1, Inl e) \<Rightarrow> (w1, Some e)
      | (w1, Inr ord) \<Rightarrow>
          (case get_ticker g w1 of
             (w2, Inl e) \<Rightarrow> (w2, Some e)
           | (w2, Inr price) \<Rightarrow>
               (let t1 = (tr w2)\<lparr>short_entry := price\<rparr>;
                    t2 = t1\<lparr>short_tp := short_entry t1 - short_tp_deduct t1 * short_entry t1\<rparr>;
                    t3 = t2\<lparr>short_sl := short_entry t2 + short_sl_add t2 * short_entry t2\<rparr>;
                    t4 = t3\<lparr>last_units := last_units t3 * 2 * -1\<rparr>
                in (w2\<lparr>tr := t4\<lparr>last_direction := Some ''SHORT''\<rparr>\<rparr>, None))))"

text \<open>Lines 235-251: the hedge from SHORT into LONG.\<close>

definition hedge_long :: "gateway \<Rightarrow> world \<Rightarrow> world \<times> error option" where
  "hedge_long g w =
     (case place_order g w BUY \<bar>last_units (tr w) * 2\<bar> ''LONG'' of
        (w1, Inl e) \<Rightarrow> (w1, Some e)
      | (w1, Inr ord) \<Rightarrow>
          (case get_ticker g w1 of
             (w2, Inl e) \<Rightarrow> (w2, Some e)
           | (w2, Inr price) \<Rightarrow>
               (let t1 = (tr w2)\<lparr>long_entry := price\<rparr>;
                    t2 = t1\<lparr>long_tp := long_entry t1 + long_tp_add t1 * long_entry t1\<rparr>;
                    t3 = t2\<lparr>long_sl := long_entry t2 - long_sl_deduct t2 * long_entry t2\<rparr>;
                    t4 = t3\<lparr>last_units := last_units t3 * 2 * -1\<rparr>
                in (w2\<lparr>tr := t4\<lparr>last_direction := Some ''LONG''\<rparr>\<rparr>, None))))"

text \<open>
  Lines 217-223 (\<open>sd\<close> is LONG) and 261-268 (\<open>sd\<close> is SHORT): close everything,
  forget the position, set the side and enter again.
\<close>

definition take_profit :: "string \<Rightarrow> gateway \<Rightarrow> world \<Rightarrow> world \<times> error option" where
  "take_profit sd g w =
     (case close_all_positions g w of
        (w1, Some e) \<Rightarrow> (w1, Some e)
      | (w1, None) \<Rightarrow>
          first_trade g
            (w1\<lparr>tr := (tr w1)\<lparr>last_units := 0, last_direction := None, side := sd\<rparr>\<rparr>))"

text \<open>The \<^verbatim>\<open>try\<close> block, lines 182-268.\<close>

definition hedging_body :: "gateway \<Rightarrow> world \<Rightarrow> world \<times> error option" where
  "hedging_body g w =
     (if last_direction (tr w) = Some ''LONG'' then
        (if last_units (tr w) > 0 then
           (if close (tr w) \<le> short_entry (tr w) then hedge_short g w
            else if close (tr w) \<ge> long_tp (tr w) then take_profit ''LONG'' g w
            else (w, None))
         else (w, None))
      else if last_direction (tr w) = Some ''SHORT'' then
        (if last_units (tr w) < 0 then
           (if close (tr w) \<ge> long_entry (tr w) then hedge_long g w
            else if close (tr w) \<le> short_tp (tr w) then take_profit ''SHORT'' g w
            else (w, None))
         else (w, None))
      else (w, None))"

text \<open>
  The \<^verbatim>\<open>except\<close> clause of line 269 prints and does not raise: whatever the
  \<^verbatim>\<open>try\<close> block raised, the method returns normally with the state the block
  left.
\<close>

definition hedging_loop :: "gateway \<Rightarrow> world \<Rightarrow> world \<times> error option" where
  "hedging_loop g w =
     (case hedging_body g w of
        (w1, Some e) \<Rightarrow> (w1, None)
      | (w1, None) \<Rightarrow> (w1, None))"

subsection \<open>\<^verbatim>\<open>stream_price\<close>, lines 367-394\<close>

text \<open>
  A message is \<open>Some c\<close> when \<^verbatim>\<open>msg["E"]\<close> converts to a time and
  \<^verbatim>\<open>float(msg["k"]["c"])\<close> is \<open>c\<close>, and \<open>None\<close> when one of the two raises: then
  \<^verbatim>\<open>close\<close> keeps its value and \<^verbatim>\<open>hedging_loop\<close> is not called. The
  \<^verbatim>\<open>except\<close> clause of line 392 prints and does not raise.
\<close>

definition stream_price :: "gateway \<Rightarrow> world \<Rightarrow> real option \<Rightarrow> world \<times> error option" where
  "stream_price g w msg =
     (case msg of
        None \<Rightarrow> (w, None)
      | Some c \<Rightarrow>
          (case hedging_loop g (w\<lparr>tr := (tr w)\<lparr>close := c\<rparr>\<rparr>) of
             (w1, Some e) \<Rightarrow> (w1, None)
           | (w1, None) \<Rightarrow> (w1, None)))"

text \<open>The messages of the socket, one call of the callback after the other.\<close>

fun process :: "gateway \<Rightarrow> world \<Rightarrow> real option list \<Rightarrow> world" where
  "process g w [] = w"
| "process g w (m # ms) = process g (fst (stream_price g w m)) ms"

subsection \<open>A configuration and clients to run it against\<close>

text \<open>The configuration of the \<^verbatim>\<open>__main__\<close> block, lines 421-439.\<close>

definition main_world :: world where
  "main_world =
     init_world ''BTCUSDT'' ''1m'' 0.3 50 ''LONG''
       (0.4 / 100) (0.4 / 100) (0.8 / 100) (1.2 / 100) (0.8 / 100) (1.2 / 100)"

text \<open>
  A client that accepts every order, answers the first ticker request with 50000 and
  the later ones with 49800, and reports the long position of 0.3.
\<close>

definition gw_fill :: gateway where
  "gw_fill =
     \<lparr> create_order = (\<lambda>h sd q ps. Inr \<lparr>orderId = int (length h), origQty = q\<rparr>),
       symbol_ticker = (\<lambda>h. Inr (if length h \<le> 1 then 50000 else 49800)),
       position_information = (\<lambda>h. Inr [Inr (''LONG'', 0.3), Inr (''SHORT'', 0)]) \<rparr>"

text \<open>A client that rejects every order and every request.\<close>

definition gw_reject :: gateway where
  "gw_reject =
     \<lparr> create_order = (\<lambda>h sd q ps. Inl GatewayError),
       symbol_ticker = (\<lambda>h. Inl GatewayError),
       position_information = (\<lambda>h. Inl GatewayError) \<rparr>"

text \<open>
  A client that accepts every order and reports a LONG entry with a negative amount
  and an entry of the one-way mode, whose side is BOTH.
\<close>

definition gw_odd :: gateway where
  "gw_odd =
     \<lparr> create_order = (\<lambda>h sd q ps. Inr \<lparr>orderId = int (length h), origQty = q\<rparr>),
       symbol_ticker = (\<lambda>h. Inr 50000),
       position_information = (\<lambda>h. Inr [Inr (''LONG'', - 1), Inr (''BOTH'', 0.3)]) \<rparr>"

text \<open>
  The trader built with \<^verbatim>\<open>units = 0\<close> after its first trade against
  \<open>gw_fill\<close>: its direction is LONG and its \<^verbatim>\<open>last_units\<close> are zero.
\<close>

definition zero_units_world :: world where
  "zero_units_world =
     fst (first_trade gw_fill
       (init_world ''BTCUSDT'' ''1m'' 0 50 ''LONG''
          (0.4 / 100) (0.4 / 100) (0.8 / 100) (1.2 / 100) (0.8 / 100) (1.2 / 100)))"

text \<open>
  A client that accepts SELL orders, rejects BUY orders, answers the ticker with 50000
  and reports the long position of 0.3.
\<close>

definition gw_sell_only :: gateway where
  "gw_sell_only =
     \<lparr> create_order = (\<lambda>h sd q ps.
         case sd of SELL \<Rightarrow> Inr \<lparr>orderId = int (length h), origQty = q\<rparr>
                  | BUY \<Rightarrow> Inl GatewayError),
       symbol_ticker = (\<lambda>h. Inr 50000),
       position_information = (\<lambda>h. Inr [Inr (''LONG'', 0.3), Inr (''SHORT'', 0)]) \<rparr>"

text \<open>
  The main configuration after its first trade against \<open>gw_fill\<close> (LONG, 0.3 units),
  and after the price 49800 has then hedged it into SHORT.
\<close>

definition long_world :: world where
  "long_world = fst (first_trade gw_fill main_world)"

definition short_world :: world where
  "short_world = process gw_fill long_world [Some 49800]"

text \<open>A client that accepts every order and reports both sides flat.\<close>

definition gw_flat :: gateway where
  "gw_flat =
     \<lparr> create_order = (\<lambda>h sd q ps. Inr \<lparr>orderId = int (length h), origQty = q\<rparr>),
       symbol_ticker = (\<lambda>h. Inr 50000),
       position_information = (\<lambda>h. Inr [Inr (''LONG'', 0), Inr (''SHORT'', 0)]) \<rparr>"

text \<open>
  The short trader hedged back into LONG by the price 50000 (1.2 units, after two
  doublings), and a trader whose \<^verbatim>\<open>long_tp_add\<close> is negative, so that after its
  first trade \<^verbatim>\<open>long_tp\<close> (49500) lies below \<^verbatim>\<open>short_entry\<close> (49800).
\<close>

definition doubled_world :: world where
  "doubled_world = process gw_fill short_world [Some 50000]"

definition crossed_world :: world where
  "crossed_world =
     fst (first_trade gw_fill
       (init_world ''BTCUSDT'' ''1m'' 0.3 50 ''LONG''
          (0.4 / 100) (0.4 / 100) (- 1 / 100) (1.2 / 100) (0.8 / 100) (1.2 / 100)))"

text \<open>
  A client that accepts BUY orders, rejects SELL orders and reports a long position of
  0.3 and a short position of 0.6; and a client that accepts every order and reports a
  long position, an entry that cannot be read, and a short position.
\<close>

definition gw_buy_only :: gateway where
  "gw_buy_only =
     \<lparr> create_order = (\<lambda>h sd q ps.
         case sd of BUY \<Rightarrow> Inr \<lparr>orderId = int (length h), origQty = q\<rparr>
                  | SELL \<Rightarrow> Inl GatewayError),
       symbol_ticker = (\<lambda>h. Inr 50000),
       position_information = (\<lambda>h. Inr [Inr (''LONG'', 0.3), Inr (''SHORT'', - 0.6)]) \<rparr>"

definition gw_garbled :: gateway where
  "gw_garbled =
     \<lparr> create_order = (\<lambda>h sd q ps. Inr \<lparr>orderId = int (length h), origQty = q\<rparr>),
       symbol_ticker = (\<lambda>h. Inr 50000),
       position_information =
         (\<lambda>h. Inr [Inr (''LONG'', 0.3), Inl ParseError, Inr (''SHORT'', - 0.6)]) \<rparr>"

text \<open>
  A trader whose parameters are all doubles (powers of two and 0.25), with a
  \<^verbatim>\<open>long_tp_add\<close> of \<open>1 / 2 ^ 60\<close>.
\<close>

definition tiny_world :: world where
  "tiny_world =
     init_world ''BTCUSDT'' ''1m'' (1 / 4) 50 ''LONG''
       (1 / 256) (1 / 256) (1 / 2 ^ 60) (1 / 64) (1 / 128) (1 / 64)"

subsection \<open>Predicates the properties are stated with\<close>

text \<open>
  The sign of \<^verbatim>\<open>last_units\<close> agrees with \<^verbatim>\<open>last_direction\<close>: zero with no
  direction, positive with LONG, negative with SHORT.
\<close>

definition sign_matches :: "trader \<Rightarrow> bool" where
  "sign_matches t =
     ((last_direction t = None \<and> last_units t = 0) \<or>
      (last_direction t = Some ''LONG'' \<and> 0 < last_units t) \<or>
      (last_direction t = Some ''SHORT'' \<and> last_units t < 0))"

text \<open>
  The entries of a position report for which the loop of
  \<^verbatim>\<open>close_all_positions\<close> places an order (the guards of lines 295 and 306),
  and the order it places for such an entry.
\<close>

definition closable :: "string \<times> real \<Rightarrow> bool" where
  "closable pos = (case pos of (type, amt) \<Rightarrow>
     (type = ''LONG'' \<and> amt > 0) \<or> (type = ''SHORT'' \<and> amt < 0))"

definition closing_order :: "string \<times> real \<Rightarrow> call" where
  "closing_order pos = (case pos of (type, amt) \<Rightarrow>
     CreateOrder (if type = ''LONG'' then SELL else BUY) \<bar>amt\<bar> type)"

text \<open>
  The client accepts each of these orders in turn, when they are placed one after the
  other from the history \<open>h\<close>.
\<close>

fun accepts :: "gateway \<Rightarrow> call list \<Rightarrow> call list \<Rightarrow> bool" where
  "accepts g h [] = True"
| "accepts g h (CreateOrder sd q ps # cs) =
     (case create_order g h sd q ps of
        Inl e \<Rightarrow> False
      | Inr ord \<Rightarrow> accepts g (h @ [CreateOrder sd q ps]) cs)"
| "accepts g h (c # cs) = False"

text \<open>
  The conditions under which \<^verbatim>\<open>hedging_loop\<close> enters a take-profit branch
  (lines 182-188 and 214 for LONG, 225-231 and 258 for SHORT), with the side the branch
  assigns.
\<close>

definition take_profit_due :: "trader \<Rightarrow> real \<Rightarrow> string \<Rightarrow> bool" where
  "take_profit_due t p sd =
     ((last_direction t = Some ''LONG'' \<and> 0 < last_units t \<and> short_entry t < p \<and>
       long_tp t \<le> p \<and> sd = ''LONG'') \<or>
      (last_direction t = Some ''SHORT'' \<and> last_units t < 0 \<and> p < long_entry t \<and>
       p \<le> short_tp t \<and> sd = ''SHORT''))"

section \<open>Properties\<close>

subsection \<open>Unfolding and frame lemmas\<close>

lemmas cfg_defs = main_world_def init_world_def init_def

lemmas step_defs = first_trade_def place_order_def get_ticker_def get_positions_def
  set_levels_long_def set_levels_short_def hedge_short_def hedge_long_def take_profit_def
  hedging_body_def hedging_loop_def stream_price_def close_all_positions_def Let_def

lemma close_loop_tr: "tr (fst (close_loop g w ps)) = tr w"
  by (induction g w ps rule: close_loop.induct)
     (auto simp: place_order_def split: sum.splits)

lemma close_all_positions_tr: "tr (fst (close_all_positions g w)) = tr w"
  by (simp add: close_all_positions_def get_positions_def close_loop_tr split: sum.splits)

lemma stream_price_fst:
  "fst (stream_price g w (Some p)) = fst (hedging_body g (w\<lparr>tr := (tr w)\<lparr>close := p\<rparr>\<rparr>))"
  by (simp add: stream_price_def hedging_loop_def split: prod.splits option.splits)

lemma stream_price_snd: "snd (stream_price g w m) = None"
  by (simp add: stream_price_def split: prod.splits option.splits)

text \<open>
  \<^verbatim>\<open>base_units\<close> and \<^verbatim>\<open>int_units\<close> are set to the same value by
  \<^verbatim>\<open>__init__\<close> and assigned by no method.
\<close>

lemma first_trade_units:
  "int_units (tr (fst (first_trade g w))) = int_units (tr w) \<and>
   base_units (tr (fst (first_trade g w))) = base_units (tr w)"
  by (simp add: first_trade_def place_order_def get_ticker_def set_levels_long_def
      set_levels_short_def Let_def split: sum.splits)

lemma take_profit_units:
  "int_units (tr (fst (take_profit sd g w))) = int_units (tr w) \<and>
   base_units (tr (fst (take_profit sd g w))) = base_units (tr w)"
proof (cases "close_all_positions g w")
  case (Pair w1 r)
  have t: "tr w1 = tr w"
    using close_all_positions_tr [of g w] Pair by simp
  show ?thesis
  proof (cases r)
    case (Some e)
    with Pair t show ?thesis by (simp add: take_profit_def)
  next
    case None
    with Pair t first_trade_units
      [of g "w1\<lparr>tr := (tr w1)\<lparr>last_units := 0, last_direction := None, side := sd\<rparr>\<rparr>"]
    show ?thesis by (simp add: take_profit_def)
  qed
qed

lemma stream_price_units:
  "int_units (tr (fst (stream_price g w m))) = int_units (tr w) \<and>
   base_units (tr (fst (stream_price g w m))) = base_units (tr w)"
proof (cases m)
  case None
  then show ?thesis by (simp add: stream_price_def)
next
  case (Some c)
  let ?w1 = "w\<lparr>tr := (tr w)\<lparr>close := c\<rparr>\<rparr>"
  have hs: "int_units (tr (fst (hedge_short g ?w1))) = int_units (tr w) \<and>
      base_units (tr (fst (hedge_short g ?w1))) = base_units (tr w)"
    by (simp add: hedge_short_def place_order_def get_ticker_def Let_def split: sum.splits)
  have hl: "int_units (tr (fst (hedge_long g ?w1))) = int_units (tr w) \<and>
      base_units (tr (fst (hedge_long g ?w1))) = base_units (tr w)"
    by (simp add: hedge_long_def place_order_def get_ticker_def Let_def split: sum.splits)
  show ?thesis
    using hs hl take_profit_units [of "''LONG''" g ?w1] take_profit_units [of "''SHORT''" g ?w1]
    by (simp add: Some stream_price_fst hedging_body_def)
qed

lemma process_units:
  "int_units (tr (process g w ms)) = int_units (tr w) \<and>
   base_units (tr (process g w ms)) = base_units (tr w)"
  by (induction ms arbitrary: w) (simp_all add: stream_price_units)

lemma init_units:
  "int_units (init smb bl units lev sd lea sed lta lsd std ssa) =
   base_units (init smb bl units lev sd lea sed lta lsd std ssa)"
  by (simp add: init_def)

lemma main_world_entered:
  "first_trade gw_fill main_world =
     (\<lparr> tr = (tr main_world)\<lparr>long_entry := 50000, short_entry := 49800, long_tp := 50400,
            long_sl := 49400, short_tp := 49401.6, short_sl := 50397.6,
            last_units := 0.3, last_direction := Some ''LONG''\<rparr>,
         calls = [CreateOrder BUY 0.3 ''LONG'', SymbolTicker] \<rparr>, None)"
  by (simp add: step_defs cfg_defs gw_fill_def)

lemma long_world_eq:
  "long_world =
     \<lparr> tr = (tr main_world)\<lparr>long_entry := 50000, short_entry := 49800, long_tp := 50400,
            long_sl := 49400, short_tp := 49401.6, short_sl := 50397.6,
            last_units := 0.3, last_direction := Some ''LONG''\<rparr>,
       calls = [CreateOrder BUY 0.3 ''LONG'', SymbolTicker] \<rparr>"
  by (simp add: long_world_def main_world_entered)

lemma short_world_eq:
  "short_world =
     \<lparr> tr = (tr main_world)\<lparr>close := 49800, long_entry := 50000, short_entry := 49800,
            long_tp := 50400, long_sl := 49400, short_tp := 49401.6, short_sl := 50397.6,
            last_units := - 0.6, last_direction := Some ''SHORT''\<rparr>,
       calls = [CreateOrder BUY 0.3 ''LONG'', SymbolTicker,
                CreateOrder SELL 0.6 ''SHORT'', SymbolTicker] \<rparr>"
  unfolding short_world_def long_world_eq
  by (simp add: step_defs cfg_defs gw_fill_def)

subsection \<open>A rejected first order\<close>

text \<open>
  Claim C7. When the market order of \<^verbatim>\<open>first_trade\<close> is rejected, the method
  raises that exception to its caller and has assigned no attribute of the trader: the
  direction, the units and the six price levels are the ones it started with.
\<close>

theorem first_trade_order_fails:
  assumes "(side (tr w) = ''LONG'' \<and>
              create_order g (calls w) BUY (int_units (tr w)) ''LONG'' = Inl e) \<or>
           (side (tr w) = ''SHORT'' \<and>
              create_order g (calls w) SELL (int_units (tr w)) ''SHORT'' = Inl e)"
  shows "snd (first_trade g w) = Some e \<and> tr (fst (first_trade g w)) = tr w"
  using assms by (auto simp: first_trade_def place_order_def)

theorem first_trade_order_fails_witness:
  "side (tr main_world) = ''LONG'' \<and>
   create_order gw_reject (calls main_world) BUY (int_units (tr main_world)) ''LONG''
     = Inl GatewayError \<and>
   snd (first_trade gw_reject main_world) = Some GatewayError \<and>
   tr (fst (first_trade gw_reject main_world)) = tr main_world \<and>
   last_direction (tr (fst (first_trade gw_reject main_world))) = None \<and>
   last_units (tr (fst (first_trade gw_reject main_world))) = 0"
proof -
  have h: "side (tr main_world) = ''LONG'' \<and>
      create_order gw_reject (calls main_world) BUY (int_units (tr main_world)) ''LONG''
        = Inl GatewayError"
    by (simp add: cfg_defs gw_reject_def)
  have "(side (tr main_world) = ''LONG'' \<and>
      create_order gw_reject (calls main_world) BUY (int_units (tr main_world)) ''LONG''
        = Inl GatewayError) \<or>
     (side (tr main_world) = ''SHORT'' \<and>
      create_order gw_reject (calls main_world) SELL (int_units (tr main_world)) ''SHORT''
        = Inl GatewayError)"
    using h by simp
  from first_trade_order_fails [OF this] h show ?thesis
    by (simp add: cfg_defs)
qed

subsection \<open>Direction and units that disagree\<close>

text \<open>
  Claim C10. When the direction is LONG and \<^verbatim>\<open>last_units\<close> is not positive, or
  the direction is SHORT and \<^verbatim>\<open>last_units\<close> is not negative, a price message
  makes no call to the client and assigns nothing but \<^verbatim>\<open>close\<close>.
\<close>

theorem sign_mismatch_noop:
  "(last_direction (tr w) = Some ''LONG'' \<and> last_units (tr w) \<le> 0) \<or>
   (last_direction (tr w) = Some ''SHORT'' \<and> last_units (tr w) \<ge> 0)
   \<Longrightarrow> stream_price g w (Some p) = (w\<lparr>tr := (tr w)\<lparr>close := p\<rparr>\<rparr>, None)"
  by (auto simp: stream_price_def hedging_loop_def hedging_body_def)

theorem sign_mismatch_noop_witness:
  "last_direction (tr zero_units_world) = Some ''LONG'' \<and>
   last_units (tr zero_units_world) \<le> 0 \<and>
   stream_price gw_fill zero_units_world (Some 49000) =
     (zero_units_world\<lparr>tr := (tr zero_units_world)\<lparr>close := 49000\<rparr>\<rparr>, None)"
proof -
  have d: "last_direction (tr zero_units_world) = Some ''LONG''"
    and u: "last_units (tr zero_units_world) \<le> 0"
    by (simp_all add: zero_units_world_def step_defs cfg_defs gw_fill_def)
  have "(last_direction (tr zero_units_world) = Some ''LONG'' \<and>
         last_units (tr zero_units_world) \<le> 0) \<or>
        (last_direction (tr zero_units_world) = Some ''SHORT'' \<and>
         last_units (tr zero_units_world) \<ge> 0)"
    using d u by simp
  from sign_mismatch_noop [OF this, of gw_fill 49000] d u show ?thesis by simp
qed

subsection \<open>The first trade of the main configuration\<close>

text \<open>
  Claim C3, as amended. With the offsets 0.4%, 0.4%, 0.8%, 1.2%, 0.8%, 1.2%, 0.3 units
  and side LONG, a first trade whose order is accepted and whose ticker answers 50000
  leaves \<^verbatim>\<open>long_entry\<close> 50000, \<^verbatim>\<open>short_entry\<close> 49800,
  \<^verbatim>\<open>long_tp\<close> 50400, \<^verbatim>\<open>long_sl\<close> 49400, \<^verbatim>\<open>short_tp\<close> 49401.6
  (0.8% below 49800), \<^verbatim>\<open>short_sl\<close> 50397.6 and \<^verbatim>\<open>last_units\<close> 0.3, in
  exact arithmetic.
\<close>

theorem first_trade_long_at_50000:
  assumes "create_order g (calls main_world) BUY 0.3 ''LONG'' = Inr ord"
    and "symbol_ticker g (calls main_world @ [CreateOrder BUY 0.3 ''LONG'']) = Inr 50000"
  shows "snd (first_trade g main_world) = None \<and>
         long_entry (tr (fst (first_trade g main_world))) = 50000 \<and>
         short_entry (tr (fst (first_trade g main_world))) = 49800 \<and>
         long_tp (tr (fst (first_trade g main_world))) = 50400 \<and>
         long_sl (tr (fst (first_trade g main_world))) = 49400 \<and>
         short_tp (tr (fst (first_trade g main_world))) = 49401.6 \<and>
         short_sl (tr (fst (first_trade g main_world))) = 50397.6 \<and>
         last_units (tr (fst (first_trade g main_world))) = 0.3 \<and>
         last_direction (tr (fst (first_trade g main_world))) = Some ''LONG''"
  using assms by (simp add: step_defs cfg_defs)

theorem first_trade_long_at_50000_witness:
  "create_order gw_fill (calls main_world) BUY 0.3 ''LONG'' = Inr \<lparr>orderId = 0, origQty = 0.3\<rparr> \<and>
   symbol_ticker gw_fill (calls main_world @ [CreateOrder BUY 0.3 ''LONG'']) = Inr 50000 \<and>
   snd (first_trade gw_fill main_world) = None \<and>
   short_tp (tr (fst (first_trade gw_fill main_world))) = 49401.6 \<and>
   short_sl (tr (fst (first_trade gw_fill main_world))) = 50397.6"
proof -
  have a: "create_order gw_fill (calls main_world) BUY 0.3 ''LONG''
             = Inr \<lparr>orderId = 0, origQty = 0.3\<rparr>"
    by (simp add: gw_fill_def cfg_defs)
  have b: "symbol_ticker gw_fill (calls main_world @ [CreateOrder BUY 0.3 ''LONG'']) = Inr 50000"
    by (simp add: gw_fill_def cfg_defs)
  from first_trade_long_at_50000 [OF a b] a b show ?thesis by simp
qed

text \<open>
  The value 49404.4 that the claim gives for \<^verbatim>\<open>short_tp\<close> is more than 2 away
  from the one the first trade computes at the fill price 50000.
\<close>

theorem short_tp_not_49404_4:
  "snd (first_trade gw_fill main_world) = None \<and>
   long_entry (tr (fst (first_trade gw_fill main_world))) = 50000 \<and>
   short_entry (tr (fst (first_trade gw_fill main_world))) = 49800 \<and>
   \<bar>short_tp (tr (fst (first_trade gw_fill main_world))) - 49404.4\<bar> > 2"
  by (simp add: main_world_entered)

subsection \<open>Rounding to doubles\<close>

lemma round_even_of_int [simp]: "round_even (of_int n) = n"
  by (simp add: round_even_def)

lemma round_even_mono: "y \<le> z \<Longrightarrow> round_even y \<le> round_even z"
proof -
  assume yz: "y \<le> z"
  have fl: "\<lfloor>y\<rfloor> \<le> \<lfloor>z\<rfloor>" using yz by (rule floor_mono)
  show ?thesis
  proof (cases "\<lfloor>y\<rfloor> = \<lfloor>z\<rfloor>")
    case True
    with yz show ?thesis by (auto simp: round_even_def Let_def)
  next
    case False
    with fl have "\<lfloor>y\<rfloor> + 1 \<le> \<lfloor>z\<rfloor>" by simp
    moreover have "round_even y \<le> \<lfloor>y\<rfloor> + 1" by (simp add: round_even_def Let_def)
    moreover have "\<lfloor>z\<rfloor> \<le> round_even z" by (simp add: round_even_def Let_def)
    ultimately show ?thesis by linarith
  qed
qed

lemma round_even_minus: "round_even (- y) = - round_even y"
proof (cases "y = of_int \<lfloor>y\<rfloor>")
  case True
  then obtain n where "y = of_int n" by blast
  then show ?thesis
    by (metis of_int_minus round_even_of_int)
next
  case False
  then have f: "\<lfloor>- y\<rfloor> = - \<lfloor>y\<rfloor> - 1"
    by (metis ceiling_altdef ceiling_def add_diff_cancel_right' minus_diff_eq
        minus_minus uminus_add_conv_diff Ints_of_int Ints_cases)
  show ?thesis
    unfolding round_even_def Let_def f
    by (auto simp: algebra_simps)
qed

lemma ulp_pos [simp]: "0 < ulp x"
  by (simp add: ulp_def)

lemma binade_minus [simp]: "binade (- x) = binade x"
  by (simp add: binade_def)

lemma ulp_minus [simp]: "ulp (- x) = ulp x"
  by (simp add: ulp_def)

lemma dbl_minus: "dbl (- x) = - dbl x"
  by (simp add: dbl_def round_even_minus)

lemma dbl_zero [simp]: "dbl 0 = 0"
  by (simp add: dbl_def)

lemma binade_ge [simp]: "- 1022 \<le> binade x"
  by (simp add: binade_def)

lemma below_next_binade:
  assumes "x \<noteq> 0"
  shows "\<bar>x\<bar> < 2 powr (of_int (binade x + 1))"
proof -
  let ?k = "\<lfloor>log 2 \<bar>x\<bar>\<rfloor>"
  have "\<bar>x\<bar> < 2 powr (of_int ?k + 1)"
    using assms floor_log_eq_powr_iff [of "\<bar>x\<bar>" 2 ?k] by simp
  also have "\<dots> \<le> 2 powr (of_int (binade x + 1))"
    by (simp add: binade_def)
  finally show ?thesis .
qed

lemma above_binade:
  assumes "x \<noteq> 0" and "- 1022 < binade x"
  shows "2 powr (of_int (binade x)) \<le> \<bar>x\<bar>"
proof -
  let ?k = "\<lfloor>log 2 \<bar>x\<bar>\<rfloor>"
  from assms(2) have "binade x = ?k"
    by (simp add: binade_def max_def split: if_splits)
  moreover have "2 powr (of_int ?k) \<le> \<bar>x\<bar>"
    using assms(1) floor_log_eq_powr_iff [of "\<bar>x\<bar>" 2 ?k] by simp
  ultimately show ?thesis by simp
qed

lemma binade_mono:
  assumes "0 < x" and "x \<le> y"
  shows "binade x \<le> binade y"
proof -
  have "log 2 \<bar>x\<bar> \<le> log 2 \<bar>y\<bar>"
    using assms by simp
  then have "\<lfloor>log 2 \<bar>x\<bar>\<rfloor> \<le> \<lfloor>log 2 \<bar>y\<bar>\<rfloor>"
    by (rule floor_mono)
  then show ?thesis unfolding binade_def by (intro max.mono) simp_all
qed

lemma ulp_nonneg [simp]: "0 \<le> ulp x"
  by (simp add: ulp_def)

lemma ulp_scale: "2 powr (of_int (binade x) + 1) = 2 ^ 53 * ulp x"
proof -
  have "(2::real) powr (of_int (binade x) + 1) = 2 powr (53 + of_int (binade x - 52))"
    by (simp add: add.commute)
  also have "\<dots> = 2 powr 53 * ulp x"
    unfolding ulp_def by (rule powr_add)
  finally show ?thesis by simp
qed

lemma ulp_scale': "2 powr (of_int (binade x)) = 2 ^ 52 * ulp x"
proof -
  have "(2::real) powr (of_int (binade x)) = 2 powr (52 + of_int (binade x - 52))"
    by simp
  also have "\<dots> = 2 powr 52 * ulp x"
    unfolding ulp_def by (rule powr_add)
  finally show ?thesis by simp
qed

lemma dbl_nonneg:
  assumes "0 \<le> x"
  shows "0 \<le> dbl x"
proof (cases "x = 0")
  case True
  then show ?thesis by simp
next
  case False
  with assms have "0 \<le> x / ulp x" by (intro divide_nonneg_pos) simp_all
  then have "round_even 0 \<le> round_even (x / ulp x)"
    by (rule round_even_mono)
  then have "0 \<le> round_even (x / ulp x)"
    using round_even_of_int [of 0] by simp
  with False show ?thesis by (simp add: dbl_def)
qed

lemma dbl_le_next_binade:
  assumes "0 < x"
  shows "dbl x \<le> 2 powr (of_int (binade x + 1))"
proof -
  have "x < 2 ^ 53 * ulp x"
    using below_next_binade [of x] assms by (simp add: ulp_scale)
  then have "x / ulp x \<le> 2 ^ 53"
    by (simp add: pos_divide_le_eq)
  then have "round_even (x / ulp x) \<le> round_even (2 ^ 53)"
    by (rule round_even_mono)
  also have "round_even (2 ^ 53) = 2 ^ 53"
    using round_even_of_int [of "2 ^ 53"] by simp
  finally have "of_int (round_even (x / ulp x)) \<le> (2 ^ 53 :: real)"
    by (metis of_int_le_iff of_int_numeral of_int_power)
  then have "of_int (round_even (x / ulp x)) * ulp x \<le> 2 ^ 53 * ulp x"
    by (simp add: mult_right_mono)
  with assms show ?thesis by (simp add: dbl_def ulp_scale)
qed

lemma dbl_ge_binade:
  assumes "0 < x" and "- 1022 < binade x"
  shows "2 powr (of_int (binade x)) \<le> dbl x"
proof -
  have "2 ^ 52 * ulp x \<le> x"
    using above_binade [of x] assms by (simp add: ulp_scale')
  then have "2 ^ 52 \<le> x / ulp x"
    by (simp add: pos_le_divide_eq)
  then have "round_even (2 ^ 52) \<le> round_even (x / ulp x)"
    by (rule round_even_mono)
  moreover have "round_even (2 ^ 52) = 2 ^ 52"
    using round_even_of_int [of "2 ^ 52"] by simp
  ultimately have "(2 ^ 52 :: real) \<le> of_int (round_even (x / ulp x))"
    by (metis of_int_le_iff of_int_numeral of_int_power)
  then have "2 ^ 52 * ulp x \<le> of_int (round_even (x / ulp x)) * ulp x"
    by (simp add: mult_right_mono)
  with assms show ?thesis by (simp add: dbl_def ulp_scale')
qed

lemma dbl_mono_pos:
  assumes "0 < x" and "x \<le> y"
  shows "dbl x \<le> dbl y"
proof (cases "binade x = binade y")
  case True
  then have u: "ulp x = ulp y" by (simp add: ulp_def)
  have "x / ulp y \<le> y / ulp y"
    using assms(2) by (intro divide_right_mono) simp_all
  then have "round_even (x / ulp y) \<le> round_even (y / ulp y)"
    by (rule round_even_mono)
  then have "of_int (round_even (x / ulp y)) * ulp y \<le> of_int (round_even (y / ulp y)) * ulp y"
    by (simp add: mult_right_mono)
  with assms show ?thesis by (simp add: dbl_def u)
next
  case False
  with binade_mono [OF assms] have lt: "binade x + 1 \<le> binade y" by simp
  then have "- 1022 < binade y"
    using binade_ge [of x] by linarith
  from dbl_ge_binade [OF _ this] assms have "2 powr (of_int (binade y)) \<le> dbl y" by simp
  moreover have "dbl x \<le> 2 powr (of_int (binade x + 1))"
    using assms(1) by (rule dbl_le_next_binade)
  moreover have "2 powr (of_int (binade x + 1)) \<le> (2::real) powr (of_int (binade y))"
    using lt by simp
  ultimately show ?thesis by linarith
qed

lemma dbl_mono:
  assumes "x \<le> y"
  shows "dbl x \<le> dbl y"
proof -
  consider "0 < x" | "x \<le> 0" "0 \<le> y" | "y < 0" by linarith
  then show ?thesis
  proof cases
    case 1
    then show ?thesis using assms by (rule dbl_mono_pos)
  next
    case 2
    have "dbl x = - dbl (- x)" by (simp add: dbl_minus)
    moreover have "0 \<le> dbl (- x)" using 2(1) by (intro dbl_nonneg) simp
    moreover have "0 \<le> dbl y" using 2(2) by (rule dbl_nonneg)
    ultimately show ?thesis by linarith
  next
    case 3
    then have "0 < - y" and "- y \<le> - x" using assms by simp_all
    then have "dbl (- y) \<le> dbl (- x)" by (rule dbl_mono_pos)
    then show ?thesis by (simp add: dbl_minus)
  qed
qed

lemma ulp_neq0 [simp]: "ulp x \<noteq> 0"
  by (simp add: ulp_def)

lemma dbl_fixed:
  assumes "d / ulp d = of_int n"
  shows "dbl d = d"
proof (cases "d = 0")
  case True
  then show ?thesis by simp
next
  case False
  have "dbl d = of_int (round_even (of_int n)) * ulp d"
    using False assms by (simp add: dbl_def)
  also have "\<dots> = (d / ulp d) * ulp d"
    using assms by simp
  also have "\<dots> = d"
    using ulp_pos [of d] by simp
  finally show ?thesis .
qed

lemma binade_below:
  assumes "0 < d" and "d < 2 powr (of_int b + 1)" and "- 1022 \<le> b"
  shows "binade d \<le> b"
proof -
  have "log 2 d < of_int b + 1"
    using assms(1,2) by (simp add: log_less_iff)
  then have "\<lfloor>log 2 d\<rfloor> \<le> b"
    by linarith
  with assms show ?thesis by (simp add: binade_def)
qed

lemma ulp_ratio:
  assumes "binade d \<le> binade x"
  shows "ulp x = 2 ^ nat (binade x - binade d) * ulp d"
proof -
  let ?j = "nat (binade x - binade d)"
  have e: "real_of_int (binade x - 52) = real ?j + real_of_int (binade d - 52)"
    using assms by simp
  have p: "(2::real) powr (real ?j) = 2 ^ ?j"
    by (simp add: powr_realpow)
  have "ulp x = 2 powr (real ?j + real_of_int (binade d - 52))"
    by (simp only: ulp_def e)
  also have "\<dots> = 2 powr (real ?j) * ulp d"
    unfolding ulp_def by (rule powr_add)
  finally show ?thesis by (simp only: p)
qed

lemma dbl_top_fixed:
  assumes "d = 2 powr (of_int b + 1)" and "- 1022 \<le> b"
  shows "dbl d = d"
proof -
  have pos: "0 < d" using assms(1) by simp
  have "log 2 d = of_int (b + 1)"
    using assms(1) by simp
  then have "\<lfloor>log 2 d\<rfloor> = b + 1"
    by (metis floor_of_int)
  then have bd: "binade d = b + 1"
    using assms(2) pos by (simp add: binade_def)
  have e: "of_int b + 1 = 52 + real_of_int (binade d - 52)"
    by (simp add: bd)
  have "d = 2 powr (52 + of_int (binade d - 52))"
    unfolding e [symmetric] by (rule assms(1))
  also have "\<dots> = 2 powr 52 * ulp d"
    unfolding ulp_def by (rule powr_add)
  finally have "d = 2 ^ 52 * ulp d" by simp
  then have "d / ulp d = 2 ^ 52"
    using ulp_pos [of d] by (simp add: field_simps)
  also have "(2 ^ 52 :: real) = of_int (2 ^ 52)" by simp
  finally show ?thesis by (rule dbl_fixed)
qed

lemma dbl_grid_fixed:
  assumes "0 < d" and "d = of_int m * ulp x" and "binade d \<le> binade x"
  shows "dbl d = d"
proof -
  let ?j = "nat (binade x - binade d)"
  have "d = of_int m * (2 ^ ?j * ulp d)"
    using assms(2) ulp_ratio [OF assms(3)] by simp
  then have "d / ulp d = of_int m * 2 ^ ?j"
    using ulp_pos [of d] by (simp add: field_simps)
  also have "\<dots> = of_int (m * 2 ^ ?j)" by simp
  finally show ?thesis by (rule dbl_fixed)
qed

lemma dbl_idem_pos:
  assumes "0 < x"
  shows "dbl (dbl x) = dbl x"
proof -
  define d where "d = dbl x"
  define m where "m = round_even (x / ulp x)"
  have d: "d = of_int m * ulp x"
    using assms by (simp add: dbl_def d_def m_def)
  have le: "d \<le> 2 powr (of_int (binade x) + 1)"
    using dbl_le_next_binade [OF assms] by (simp add: d_def)
  have nn: "0 \<le> d"
    unfolding d_def using assms by (intro dbl_nonneg) simp
  have "dbl d = d"
  proof (cases "d = 0")
    case True
    then show ?thesis by simp
  next
    case False
    with nn have pos: "0 < d" by simp
    show ?thesis
    proof (cases "d = 2 powr (of_int (binade x) + 1)")
      case True
      then show ?thesis by (rule dbl_top_fixed) simp
    next
      case False
      with le have "d < 2 powr (of_int (binade x) + 1)" by simp
      from binade_below [OF pos this] have "binade d \<le> binade x" by simp
      with pos d show ?thesis by (rule dbl_grid_fixed)
    qed
  qed
  then show ?thesis by (simp add: d_def)
qed

lemma dbl_idem [simp]: "dbl (dbl x) = dbl x"
proof -
  consider "0 < x" | "x = 0" | "x < 0" by linarith
  then show ?thesis
  proof cases
    case 1
    then show ?thesis by (rule dbl_idem_pos)
  next
    case 2
    then show ?thesis by simp
  next
    case 3
    then have "dbl (dbl (- x)) = dbl (- x)" by (intro dbl_idem_pos) simp
    then show ?thesis by (simp add: dbl_minus)
  qed
qed

lemma binade_eq:
  assumes "2 powr (of_int k) \<le> \<bar>x\<bar>" and "\<bar>x\<bar> < 2 powr (of_int k + 1)" and "- 1022 \<le> k"
  shows "binade x = k"
proof -
  have "0 < \<bar>x\<bar>"
    using assms(1) powr_gt_zero [of 2 "of_int k"] by linarith
  then have "\<lfloor>log 2 \<bar>x\<bar>\<rfloor> = k"
    using assms(1,2) floor_log_eq_powr_iff [of "\<bar>x\<bar>" 2 k] by simp
  with assms(3) show ?thesis by (simp add: binade_def)
qed

lemma round_even_down:
  assumes "of_int n \<le> y" and "y < of_int n + 1 / 2"
  shows "round_even y = n"
proof -
  have "\<lfloor>y\<rfloor> = n"
    using assms by (intro floor_unique) simp_all
  with assms show ?thesis by (simp add: round_even_def Let_def)
qed

lemma binade_50000: "binade 50000 = 15"
  by (rule binade_eq) simp_all

lemma ulp_50000: "ulp 50000 = 1 / 2 ^ 37"
  by (simp only: ulp_def binade_50000) (simp add: powr_neg_numeral)

lemma dbl_50000: "dbl 50000 = 50000"
  by (rule dbl_fixed [where n = "50000 * 2 ^ 37"]) (simp add: ulp_50000)

lemma binade_tiny: "binade (1 / 2 ^ 60 * 50000) = - 45"
  by (rule binade_eq) (simp_all add: powr_neg_numeral)

lemma dbl_tiny: "dbl (1 / 2 ^ 60 * 50000) = 50000 / 2 ^ 60"
proof -
  have u: "ulp (1 / 2 ^ 60 * 50000) = 1 / 2 ^ 97"
    by (simp only: ulp_def binade_tiny) (simp add: powr_neg_numeral)
  have "dbl (1 / 2 ^ 60 * 50000) = 1 / 2 ^ 60 * 50000"
    by (rule dbl_fixed [where n = "50000 * 2 ^ 37"]) (simp only: u, simp)
  then show ?thesis by simp
qed

lemma binade_sum: "binade (50000 + 50000 / 2 ^ 60) = 15"
  by (rule binade_eq) simp_all

lemma dbl_sum: "dbl (50000 + 50000 / 2 ^ 60) = 50000"
proof -
  have u: "ulp (50000 + 50000 / 2 ^ 60) = 1 / 2 ^ 37"
    by (simp only: ulp_def binade_sum) (simp add: powr_neg_numeral)
  have "round_even ((50000 + 50000 / 2 ^ 60) / (1 / 2 ^ 37)) = 50000 * 2 ^ 37"
    by (rule round_even_down) simp_all
  then have "dbl (50000 + 50000 / 2 ^ 60) = of_int (50000 * 2 ^ 37) * (1 / 2 ^ 37)"
    by (simp only: dbl_def u) simp
  then show ?thesis by simp
qed

subsection \<open>The order of the levels after a first LONG trade\<close>

lemma set_levels_exact:
  "set_levels_long_with (\<lambda>x. x) = set_levels_long"
  "set_levels_short_with (\<lambda>x. x) = set_levels_short"
  by (simp_all add: fun_eq_iff set_levels_long_with_def set_levels_long_def
      set_levels_short_with_def set_levels_short_def)

lemma first_trade_exact: "first_trade_with (\<lambda>x. x) = first_trade"
  by (simp add: fun_eq_iff first_trade_with_def first_trade_def set_levels_exact)

lemma first_trade_with_long:
  assumes "side (tr w) = ''LONG''"
    and "create_order g (calls w) BUY (int_units (tr w)) ''LONG'' = Inr ord"
    and "symbol_ticker g (calls w @ [CreateOrder BUY (int_units (tr w)) ''LONG'']) = Inr p"
  shows "first_trade_with r g w =
      (w\<lparr>calls := calls w @ [CreateOrder BUY (int_units (tr w)) ''LONG'', SymbolTicker],
         tr := set_levels_long_with r p (tr w)\<rparr>, None)"
  using assms by (simp add: first_trade_with_def place_order_def get_ticker_def)

lemma levels_long_with:
  "long_entry (set_levels_long_with r p t) = p"
  "short_entry (set_levels_long_with r p t) = r (p - r (short_entry_deduct t * p))"
  "long_tp (set_levels_long_with r p t) = r (p + r (long_tp_add t * p))"
  "long_sl (set_levels_long_with r p t) = r (p - r (long_sl_deduct t * p))"
  "short_tp (set_levels_long_with r p t) =
     r (r (p - r (short_entry_deduct t * p))
        - r (short_tp_deduct t * r (p - r (short_entry_deduct t * p))))"
  "short_sl (set_levels_long_with r p t) =
     r (r (p - r (short_entry_deduct t * p))
        + r (short_sl_add t * r (p - r (short_entry_deduct t * p))))"
  "last_units (set_levels_long_with r p t) = int_units t"
  "base_units (set_levels_long_with r p t) = base_units t"
  by (simp_all add: set_levels_long_with_def Let_def)

lemma dbl_small_offset:
  assumes "a = 1 / 2 ^ 60" and "p = 50000"
  shows "dbl (p + dbl (a * p)) = p"
  unfolding assms by (simp only: dbl_tiny dbl_sum)




subsection \<open>The levels a hedge leaves alone\<close>

text \<open>
  Claim C4. When the price reaches \<^verbatim>\<open>short_entry\<close> in a LONG state, the tick
  leaves \<^verbatim>\<open>long_entry\<close>, \<^verbatim>\<open>long_tp\<close> and \<^verbatim>\<open>long_sl\<close> as they were,
  whatever the client answers; when the order is accepted and the ticker answers
  \<open>f\<close>, the direction becomes SHORT and \<^verbatim>\<open>short_entry\<close>, \<^verbatim>\<open>short_tp\<close>
  and \<^verbatim>\<open>short_sl\<close> are computed from \<open>f\<close> alone. The hedge from SHORT into LONG
  is the mirror image: the three short levels stay, the three long levels are
  computed from the fill price.
\<close>

theorem hedge_keeps_other_side:
  "(last_direction (tr w) = Some ''LONG'' \<and> 0 < last_units (tr w) \<and> p \<le> short_entry (tr w) \<longrightarrow>
      long_entry (tr (process g w [Some p])) = long_entry (tr w) \<and>
      long_tp (tr (process g w [Some p])) = long_tp (tr w) \<and>
      long_sl (tr (process g w [Some p])) = long_sl (tr w) \<and>
      (\<forall>ord f. create_order g (calls w) SELL \<bar>last_units (tr w) * 2\<bar> ''SHORT'' = Inr ord \<and>
               symbol_ticker g (calls w @ [CreateOrder SELL \<bar>last_units (tr w) * 2\<bar> ''SHORT''])
                 = Inr f \<longrightarrow>
         last_direction (tr (process g w [Some p])) = Some ''SHORT'' \<and>
         short_entry (tr (process g w [Some p])) = f \<and>
         short_tp (tr (process g w [Some p])) = f - short_tp_deduct (tr w) * f \<and>
         short_sl (tr (process g w [Some p])) = f + short_sl_add (tr w) * f)) \<and>
   (last_direction (tr w) = Some ''SHORT'' \<and> last_units (tr w) < 0 \<and> long_entry (tr w) \<le> p \<longrightarrow>
      short_entry (tr (process g w [Some p])) = short_entry (tr w) \<and>
      short_tp (tr (process g w [Some p])) = short_tp (tr w) \<and>
      short_sl (tr (process g w [Some p])) = short_sl (tr w) \<and>
      (\<forall>ord f. create_order g (calls w) BUY \<bar>last_units (tr w) * 2\<bar> ''LONG'' = Inr ord \<and>
               symbol_ticker g (calls w @ [CreateOrder BUY \<bar>last_units (tr w) * 2\<bar> ''LONG''])
                 = Inr f \<longrightarrow>
         last_direction (tr (process g w [Some p])) = Some ''LONG'' \<and>
         long_entry (tr (process g w [Some p])) = f \<and>
         long_tp (tr (process g w [Some p])) = f + long_tp_add (tr w) * f \<and>
         long_sl (tr (process g w [Some p])) = f - long_sl_deduct (tr w) * f))"
  by (simp add: stream_price_fst hedging_body_def hedge_short_def hedge_long_def
      place_order_def get_ticker_def Let_def split: sum.splits)

theorem hedge_keeps_other_side_witness:
  "last_direction (tr long_world) = Some ''LONG'' \<and> 0 < last_units (tr long_world) \<and>
   49800 \<le> short_entry (tr long_world) \<and>
   create_order gw_fill (calls long_world) SELL \<bar>last_units (tr long_world) * 2\<bar> ''SHORT''
     = Inr \<lparr>orderId = 2, origQty = 0.6\<rparr> \<and>
   symbol_ticker gw_fill (calls long_world @ [CreateOrder SELL \<bar>last_units (tr long_world) * 2\<bar> ''SHORT''])
     = Inr 49800 \<and>
   long_entry (tr (process gw_fill long_world [Some 49800])) = 50000 \<and>
   long_tp (tr (process gw_fill long_world [Some 49800])) = 50400 \<and>
   long_sl (tr (process gw_fill long_world [Some 49800])) = 49400 \<and>
   last_direction (tr (process gw_fill long_world [Some 49800])) = Some ''SHORT'' \<and>
   short_entry (tr (process gw_fill long_world [Some 49800])) = 49800 \<and>
   last_direction (tr short_world) = Some ''SHORT'' \<and> last_units (tr short_world) < 0 \<and>
   long_entry (tr short_world) \<le> 50000 \<and>
   create_order gw_fill (calls short_world) BUY \<bar>last_units (tr short_world) * 2\<bar> ''LONG''
     = Inr \<lparr>orderId = 4, origQty = 1.2\<rparr> \<and>
   symbol_ticker gw_fill (calls short_world @ [CreateOrder BUY \<bar>last_units (tr short_world) * 2\<bar> ''LONG''])
     = Inr 49800 \<and>
   short_entry (tr (process gw_fill short_world [Some 50000])) = 49800 \<and>
   short_tp (tr (process gw_fill short_world [Some 50000])) = 49401.6 \<and>
   short_sl (tr (process gw_fill short_world [Some 50000])) = 50397.6 \<and>
   last_direction (tr (process gw_fill short_world [Some 50000])) = Some ''LONG'' \<and>
   long_entry (tr (process gw_fill short_world [Some 50000])) = 49800"
proof -
  have l: "last_direction (tr long_world) = Some ''LONG'' \<and> 0 < last_units (tr long_world) \<and>
      49800 \<le> short_entry (tr long_world)"
    by (simp add: long_world_eq)
  have lg: "create_order gw_fill (calls long_world) SELL \<bar>last_units (tr long_world) * 2\<bar> ''SHORT''
        = Inr \<lparr>orderId = 2, origQty = 0.6\<rparr> \<and>
      symbol_ticker gw_fill
        (calls long_world @ [CreateOrder SELL \<bar>last_units (tr long_world) * 2\<bar> ''SHORT''])
        = Inr 49800"
    by (simp add: long_world_eq gw_fill_def)
  have s: "last_direction (tr short_world) = Some ''SHORT'' \<and> last_units (tr short_world) < 0 \<and>
      long_entry (tr short_world) \<le> 50000"
    by (simp add: short_world_eq)
  have sg: "create_order gw_fill (calls short_world) BUY \<bar>last_units (tr short_world) * 2\<bar> ''LONG''
        = Inr \<lparr>orderId = 4, origQty = 1.2\<rparr> \<and>
      symbol_ticker gw_fill
        (calls short_world @ [CreateOrder BUY \<bar>last_units (tr short_world) * 2\<bar> ''LONG''])
        = Inr 49800"
    by (simp add: short_world_eq gw_fill_def)
  have lv: "long_entry (tr long_world) = 50000 \<and> long_tp (tr long_world) = 50400 \<and>
      long_sl (tr long_world) = 49400"
    by (simp add: long_world_eq)
  have sv: "short_entry (tr short_world) = 49800 \<and> short_tp (tr short_world) = 49401.6 \<and>
      short_sl (tr short_world) = 50397.6"
    by (simp add: short_world_eq)
  from hedge_keeps_other_side [of long_world 49800 gw_fill] l lg lv
  have a: "long_entry (tr (process gw_fill long_world [Some 49800])) = 50000 \<and>
      long_tp (tr (process gw_fill long_world [Some 49800])) = 50400 \<and>
      long_sl (tr (process gw_fill long_world [Some 49800])) = 49400 \<and>
      last_direction (tr (process gw_fill long_world [Some 49800])) = Some ''SHORT'' \<and>
      short_entry (tr (process gw_fill long_world [Some 49800])) = 49800"
    by metis
  from hedge_keeps_other_side [of short_world 50000 gw_fill] s sg sv
  have b: "short_entry (tr (process gw_fill short_world [Some 50000])) = 49800 \<and>
      short_tp (tr (process gw_fill short_world [Some 50000])) = 49401.6 \<and>
      short_sl (tr (process gw_fill short_world [Some 50000])) = 50397.6 \<and>
      last_direction (tr (process gw_fill short_world [Some 50000])) = Some ''LONG'' \<and>
      long_entry (tr (process gw_fill short_world [Some 50000])) = 49800"
    by metis
  from l lg s sg a b show ?thesis by simp
qed

subsection \<open>The run of \<^verbatim>\<open>close_all_positions\<close>, from the answers of the client\<close>

lemma close_loop_skip:
  "\<not> closable (type, amt) \<Longrightarrow> close_loop g w (Inr (type, amt) # ps) = close_loop g w ps"
  by (auto simp: closable_def)

lemma close_loop_order:
  "closable (type, amt) \<Longrightarrow>
   close_loop g w (Inr (type, amt) # ps) =
     (case create_order g (calls w) (if type = ''LONG'' then SELL else BUY) \<bar>amt\<bar> type of
        Inl e \<Rightarrow> (w\<lparr>calls := calls w @ [closing_order (type, amt)]\<rparr>, Some e)
      | Inr ord \<Rightarrow> close_loop g (w\<lparr>calls := calls w @ [closing_order (type, amt)]\<rparr>) ps)"
  by (auto simp: closable_def closing_order_def place_order_def split: sum.splits)

lemma close_loop_run:
  "accepts g (calls w) (map closing_order (filter closable pre)) \<Longrightarrow>
   close_loop g w (map Inr pre @ rest) =
     close_loop g (w\<lparr>calls := calls w @ map closing_order (filter closable pre)\<rparr>) rest"
proof (induction pre arbitrary: w)
  case Nil
  then show ?case by simp
next
  case (Cons pos pre)
  obtain type amt where pos: "pos = (type, amt)" by (cases pos)
  show ?case
  proof (cases "closable (type, amt)")
    case False
    with Cons.prems have "accepts g (calls w) (map closing_order (filter closable pre))"
      by (simp add: pos)
    from Cons.IH [OF this] False show ?thesis
      by (simp add: pos close_loop_skip del: close_loop.simps)
  next
    case True
    let ?c = "closing_order (type, amt)"
    let ?w1 = "w\<lparr>calls := calls w @ [?c]\<rparr>"
    have c: "?c = CreateOrder (if type = ''LONG'' then SELL else BUY) \<bar>amt\<bar> type"
      by (simp add: closing_order_def)
    from Cons.prems True obtain ord where
      a: "create_order g (calls w) (if type = ''LONG'' then SELL else BUY) \<bar>amt\<bar> type = Inr ord"
      and r: "accepts g (calls ?w1) (map closing_order (filter closable pre))"
      by (auto simp: pos c split: sum.splits)
    from Cons.IH [OF r] a True show ?thesis
      by (simp add: pos close_loop_order del: close_loop.simps)
  qed
qed

lemma close_all_complete:
  assumes "position_information g (calls w) = Inr (map Inr ps)"
    and "accepts g (calls w @ [PositionInfo]) (map closing_order (filter closable ps))"
  shows "close_all_positions g w =
     (w\<lparr>calls := calls w @ PositionInfo # map closing_order (filter closable ps)\<rparr>, None)"
  using assms close_loop_run [of g "w\<lparr>calls := calls w @ [PositionInfo]\<rparr>" ps "[]"]
  by (simp add: close_all_positions_def get_positions_def)

lemma close_all_rejected:
  assumes "position_information g (calls w) = Inr (map Inr pre @ Inr (type, amt) # post)"
    and "accepts g (calls w @ [PositionInfo]) (map closing_order (filter closable pre))"
    and "closable (type, amt)"
    and "create_order g (calls w @ PositionInfo # map closing_order (filter closable pre))
           (if type = ''LONG'' then SELL else BUY) \<bar>amt\<bar> type = Inl e"
  shows "close_all_positions g w =
     (w\<lparr>calls := calls w @ PositionInfo # map closing_order (filter closable pre)
                    @ [closing_order (type, amt)]\<rparr>, Some e)"
  using assms
    close_loop_run [of g "w\<lparr>calls := calls w @ [PositionInfo]\<rparr>" pre "Inr (type, amt) # post"]
  by (simp add: close_all_positions_def get_positions_def close_loop_order
      del: close_loop.simps)

lemma close_all_unreadable:
  assumes "position_information g (calls w) = Inr (map Inr pre @ Inl e # post)"
    and "accepts g (calls w @ [PositionInfo]) (map closing_order (filter closable pre))"
  shows "close_all_positions g w =
     (w\<lparr>calls := calls w @ PositionInfo # map closing_order (filter closable pre)\<rparr>, Some e)"
  using assms close_loop_run [of g "w\<lparr>calls := calls w @ [PositionInfo]\<rparr>" pre "Inl e # post"]
  by (simp add: close_all_positions_def get_positions_def)

lemma close_all_request_fails:
  assumes "position_information g (calls w) = Inl e"
  shows "close_all_positions g w = (w\<lparr>calls := calls w @ [PositionInfo]\<rparr>, Some e)"
  using assms by (simp add: close_all_positions_def get_positions_def)

subsection \<open>Exceptions inside a tick\<close>

lemma hedge_error_unchanged:
  assumes
    "(last_direction (tr w) = Some ''LONG'' \<and> 0 < last_units (tr w) \<and> p \<le> short_entry (tr w) \<and>
        (create_order g (calls w) SELL \<bar>last_units (tr w) * 2\<bar> ''SHORT'' = Inl e \<or>
         (\<exists>ord. create_order g (calls w) SELL \<bar>last_units (tr w) * 2\<bar> ''SHORT'' = Inr ord) \<and>
         symbol_ticker g (calls w @ [CreateOrder SELL \<bar>last_units (tr w) * 2\<bar> ''SHORT'']) = Inl e)) \<or>
     (last_direction (tr w) = Some ''SHORT'' \<and> last_units (tr w) < 0 \<and> long_entry (tr w) \<le> p \<and>
        (create_order g (calls w) BUY \<bar>last_units (tr w) * 2\<bar> ''LONG'' = Inl e \<or>
         (\<exists>ord. create_order g (calls w) BUY \<bar>last_units (tr w) * 2\<bar> ''LONG'' = Inr ord) \<and>
         symbol_ticker g (calls w @ [CreateOrder BUY \<bar>last_units (tr w) * 2\<bar> ''LONG'']) = Inl e))"
  shows "snd (hedging_body g (w\<lparr>tr := (tr w)\<lparr>close := p\<rparr>\<rparr>)) = Some e \<and>
         tr (fst (hedging_body g (w\<lparr>tr := (tr w)\<lparr>close := p\<rparr>\<rparr>))) = (tr w)\<lparr>close := p\<rparr>"
  using assms
  by (elim disjE conjE exE)
     (simp_all add: hedging_body_def hedge_short_def hedge_long_def place_order_def get_ticker_def)

lemma take_profit_branch:
  "(last_direction (tr w) = Some ''LONG'' \<and> 0 < last_units (tr w) \<and> short_entry (tr w) < p \<and>
      long_tp (tr w) \<le> p \<and> sd = ''LONG'') \<or>
   (last_direction (tr w) = Some ''SHORT'' \<and> last_units (tr w) < 0 \<and> p < long_entry (tr w) \<and>
      p \<le> short_tp (tr w) \<and> sd = ''SHORT'')
   \<Longrightarrow> hedging_body g (w\<lparr>tr := (tr w)\<lparr>close := p\<rparr>\<rparr>)
         = take_profit sd g (w\<lparr>tr := (tr w)\<lparr>close := p\<rparr>\<rparr>)"
  by (auto simp: hedging_body_def)

lemma close_all_sell_only:
  "close_all_positions gw_sell_only (long_world\<lparr>tr := (tr long_world)\<lparr>close := 50400\<rparr>\<rparr>) =
     (long_world\<lparr>tr := (tr long_world)\<lparr>close := 50400\<rparr>,
        calls := [CreateOrder BUY 0.3 ''LONG'', SymbolTicker, PositionInfo,
                  CreateOrder SELL 0.3 ''LONG'']\<rparr>, None)"
  unfolding long_world_eq
  by (simp add: close_all_positions_def get_positions_def place_order_def gw_sell_only_def)

lemma restart_rejected:
  "hedging_body gw_sell_only (long_world\<lparr>tr := (tr long_world)\<lparr>close := 50400\<rparr>\<rparr>) =
     (\<lparr> tr = (tr long_world)\<lparr>close := 50400, last_units := 0, last_direction := None\<rparr>,
        calls = [CreateOrder BUY 0.3 ''LONG'', SymbolTicker, PositionInfo,
                 CreateOrder SELL 0.3 ''LONG'', CreateOrder BUY 0.3 ''LONG''] \<rparr>,
      Some GatewayError)"
proof -
  have "hedging_body gw_sell_only (long_world\<lparr>tr := (tr long_world)\<lparr>close := 50400\<rparr>\<rparr>)
      = take_profit ''LONG'' gw_sell_only (long_world\<lparr>tr := (tr long_world)\<lparr>close := 50400\<rparr>\<rparr>)"
    by (simp add: hedging_body_def long_world_eq)
  also have "\<dots> = (\<lparr> tr = (tr long_world)\<lparr>close := 50400, last_units := 0, last_direction := None\<rparr>,
        calls = [CreateOrder BUY 0.3 ''LONG'', SymbolTicker, PositionInfo,
                 CreateOrder SELL 0.3 ''LONG'', CreateOrder BUY 0.3 ''LONG''] \<rparr>,
      Some GatewayError)"
    unfolding take_profit_def close_all_sell_only
    by (simp add: first_trade_def place_order_def gw_sell_only_def long_world_eq cfg_defs)
  finally show ?thesis .
qed

lemma take_profit_due_branch:
  "take_profit_due (tr w) p sd \<Longrightarrow>
   hedging_body g (w\<lparr>tr := (tr w)\<lparr>close := p\<rparr>\<rparr>)
     = take_profit sd g (w\<lparr>tr := (tr w)\<lparr>close := p\<rparr>\<rparr>)"
  unfolding take_profit_due_def by (rule take_profit_branch)

lemma take_profit_close_fails:
  assumes "close_all_positions g w = (w', Some e)"
  shows "take_profit sd g w = (w', Some e)"
  using assms by (simp add: take_profit_def)

lemma first_trade_fails:
  assumes "sd = ''LONG'' \<or> sd = ''SHORT''" and "side (tr w) = sd"
    and "create_order g (calls w) (if sd = ''LONG'' then BUY else SELL) (int_units (tr w)) sd = Inl e \<or>
         (\<exists>ord. create_order g (calls w) (if sd = ''LONG'' then BUY else SELL) (int_units (tr w)) sd
                  = Inr ord) \<and>
         symbol_ticker g (calls w @ [CreateOrder (if sd = ''LONG'' then BUY else SELL)
                                       (int_units (tr w)) sd]) = Inl e"
  shows "snd (first_trade g w) = Some e \<and> tr (fst (first_trade g w)) = tr w"
  using assms
  by (elim disjE conjE exE) (simp_all add: first_trade_def place_order_def get_ticker_def)

lemma long_world_due:
  "take_profit_due (tr long_world) 50400 ''LONG''"
  by (simp add: take_profit_due_def long_world_eq)




subsection \<open>Which check a tick takes\<close>

lemma close_loop_calls: "\<exists>rest. calls (fst (close_loop g w ps)) = calls w @ rest"
  by (induction g w ps rule: close_loop.induct)
     (auto simp: place_order_def split: sum.splits)

lemma close_all_positions_calls:
  "\<exists>rest. calls (fst (close_all_positions g w)) = calls w @ PositionInfo # rest"
proof (cases "position_information g (calls w)")
  case (Inl e)
  then show ?thesis by (simp add: close_all_positions_def get_positions_def)
next
  case (Inr ps)
  obtain rest where
    "calls (fst (close_loop g (w\<lparr>calls := calls w @ [PositionInfo]\<rparr>) ps))
       = calls (w\<lparr>calls := calls w @ [PositionInfo]\<rparr>) @ rest"
    using close_loop_calls by blast
  with Inr show ?thesis by (simp add: close_all_positions_def get_positions_def)
qed

lemma first_trade_calls: "\<exists>rest. calls (fst (first_trade g w)) = calls w @ rest"
  by (auto simp: first_trade_def place_order_def get_ticker_def split: sum.splits)

lemma take_profit_calls:
  "\<exists>rest. calls (fst (take_profit sd g w)) = calls w @ PositionInfo # rest"
proof (cases "close_all_positions g w")
  case (Pair w1 r)
  obtain r1 where c1: "calls w1 = calls w @ PositionInfo # r1"
    using close_all_positions_calls [of g w] Pair by auto
  show ?thesis
  proof (cases r)
    case (Some e)
    with Pair c1 show ?thesis by (simp add: take_profit_def)
  next
    case None
    let ?w2 = "w1\<lparr>tr := (tr w1)\<lparr>last_units := 0, last_direction := None, side := sd\<rparr>\<rparr>"
    obtain r2 where "calls (fst (first_trade g ?w2)) = calls ?w2 @ r2"
      using first_trade_calls by blast
    with Pair None c1 show ?thesis by (simp add: take_profit_def)
  qed
qed

lemma doubled_world_eq:
  "doubled_world =
     \<lparr> tr = (tr main_world)\<lparr>close := 50000, long_entry := 49800, short_entry := 49800,
            long_tp := 50198.4, long_sl := 49202.4, short_tp := 49401.6, short_sl := 50397.6,
            last_units := 1.2, last_direction := Some ''LONG''\<rparr>,
       calls = [CreateOrder BUY 0.3 ''LONG'', SymbolTicker,
                CreateOrder SELL 0.6 ''SHORT'', SymbolTicker,
                CreateOrder BUY 1.2 ''LONG'', SymbolTicker] \<rparr>"
  unfolding doubled_world_def short_world_eq
  by (simp add: step_defs cfg_defs gw_fill_def)

lemma crossed_world_levels:
  "last_direction (tr crossed_world) = Some ''LONG'' \<and> last_units (tr crossed_world) = 0.3 \<and>
   short_entry (tr crossed_world) = 49800 \<and> long_tp (tr crossed_world) = 49500"
  by (simp add: crossed_world_def step_defs cfg_defs gw_fill_def)

text \<open>
  Claim C5. In a LONG state with positive units a price at or below
  \<^verbatim>\<open>short_entry\<close> places the hedge order and nothing but that order and its
  ticker request, also when the price is at or above \<^verbatim>\<open>long_tp\<close>; a price above
  \<^verbatim>\<open>short_entry\<close> and at or above \<^verbatim>\<open>long_tp\<close> runs the take-profit branch,
  whose first call asks for the positions; a price strictly between the two does
  nothing. The SHORT state is the mirror image, with \<^verbatim>\<open>long_entry\<close> checked
  before \<^verbatim>\<open>short_tp\<close>. Both comparisons include equality.
\<close>

theorem hedge_checked_first:
  "(last_direction (tr w) = Some ''LONG'' \<and> 0 < last_units (tr w) \<and> p \<le> short_entry (tr w) \<longrightarrow>
      (\<exists>rest. calls (process g w [Some p])
                = calls w @ CreateOrder SELL \<bar>last_units (tr w) * 2\<bar> ''SHORT'' # rest \<and>
              (rest = [] \<or> rest = [SymbolTicker]))) \<and>
   (last_direction (tr w) = Some ''LONG'' \<and> 0 < last_units (tr w) \<and> short_entry (tr w) < p \<and>
    long_tp (tr w) \<le> p \<longrightarrow>
      process g w [Some p] = fst (take_profit ''LONG'' g (w\<lparr>tr := (tr w)\<lparr>close := p\<rparr>\<rparr>)) \<and>
      (\<exists>rest. calls (process g w [Some p]) = calls w @ PositionInfo # rest)) \<and>
   (last_direction (tr w) = Some ''LONG'' \<and> 0 < last_units (tr w) \<and> short_entry (tr w) < p \<and>
    p < long_tp (tr w) \<longrightarrow>
      process g w [Some p] = w\<lparr>tr := (tr w)\<lparr>close := p\<rparr>\<rparr>) \<and>
   (last_direction (tr w) = Some ''SHORT'' \<and> last_units (tr w) < 0 \<and> long_entry (tr w) \<le> p \<longrightarrow>
      (\<exists>rest. calls (process g w [Some p])
                = calls w @ CreateOrder BUY \<bar>last_units (tr w) * 2\<bar> ''LONG'' # rest \<and>
              (rest = [] \<or> rest = [SymbolTicker]))) \<and>
   (last_direction (tr w) = Some ''SHORT'' \<and> last_units (tr w) < 0 \<and> p < long_entry (tr w) \<and>
    p \<le> short_tp (tr w) \<longrightarrow>
      process g w [Some p] = fst (take_profit ''SHORT'' g (w\<lparr>tr := (tr w)\<lparr>close := p\<rparr>\<rparr>)) \<and>
      (\<exists>rest. calls (process g w [Some p]) = calls w @ PositionInfo # rest)) \<and>
   (last_direction (tr w) = Some ''SHORT'' \<and> last_units (tr w) < 0 \<and> p < long_entry (tr w) \<and>
    short_tp (tr w) < p \<longrightarrow>
      process g w [Some p] = w\<lparr>tr := (tr w)\<lparr>close := p\<rparr>\<rparr>)"
proof -
  let ?w1 = "w\<lparr>tr := (tr w)\<lparr>close := p\<rparr>\<rparr>"
  have hs: "\<exists>rest. calls (fst (hedge_short g ?w1))
                = calls w @ CreateOrder SELL \<bar>last_units (tr w) * 2\<bar> ''SHORT'' # rest \<and>
              (rest = [] \<or> rest = [SymbolTicker])"
    by (simp add: hedge_short_def place_order_def get_ticker_def Let_def split: sum.splits)
  have hl: "\<exists>rest. calls (fst (hedge_long g ?w1))
                = calls w @ CreateOrder BUY \<bar>last_units (tr w) * 2\<bar> ''LONG'' # rest \<and>
              (rest = [] \<or> rest = [SymbolTicker])"
    by (simp add: hedge_long_def place_order_def get_ticker_def Let_def split: sum.splits)
  have tp: "\<exists>rest. calls (fst (take_profit sd g ?w1)) = calls w @ PositionInfo # rest" for sd
    using take_profit_calls [of sd g ?w1] by simp
  have one: "process g w [Some p] = fst (hedging_body g ?w1)"
    by (simp add: stream_price_fst)
  show ?thesis
  proof (intro conjI impI)
    assume "last_direction (tr w) = Some ''LONG'' \<and> 0 < last_units (tr w) \<and> p \<le> short_entry (tr w)"
    then have "hedging_body g ?w1 = hedge_short g ?w1"
      by (simp add: hedging_body_def)
    then show "\<exists>rest. calls (process g w [Some p])
                = calls w @ CreateOrder SELL \<bar>last_units (tr w) * 2\<bar> ''SHORT'' # rest \<and>
              (rest = [] \<or> rest = [SymbolTicker])"
      unfolding one using hs by simp
  next
    assume a: "last_direction (tr w) = Some ''LONG'' \<and> 0 < last_units (tr w) \<and>
      short_entry (tr w) < p \<and> long_tp (tr w) \<le> p"
    then have b: "hedging_body g ?w1 = take_profit ''LONG'' g ?w1"
      by (simp add: hedging_body_def)
    then show "process g w [Some p] = fst (take_profit ''LONG'' g ?w1)"
      unfolding one by simp
    from b show "\<exists>rest. calls (process g w [Some p]) = calls w @ PositionInfo # rest"
      unfolding one using tp [of "''LONG''"] by simp
  next
    assume "last_direction (tr w) = Some ''LONG'' \<and> 0 < last_units (tr w) \<and>
      short_entry (tr w) < p \<and> p < long_tp (tr w)"
    then show "process g w [Some p] = ?w1"
      unfolding one by (simp add: hedging_body_def)
  next
    assume "last_direction (tr w) = Some ''SHORT'' \<and> last_units (tr w) < 0 \<and> long_entry (tr w) \<le> p"
    then have "hedging_body g ?w1 = hedge_long g ?w1"
      by (simp add: hedging_body_def)
    then show "\<exists>rest. calls (process g w [Some p])
                = calls w @ CreateOrder BUY \<bar>last_units (tr w) * 2\<bar> ''LONG'' # rest \<and>
              (rest = [] \<or> rest = [SymbolTicker])"
      unfolding one using hl by simp
  next
    assume a: "last_direction (tr w) = Some ''SHORT'' \<and> last_units (tr w) < 0 \<and>
      p < long_entry (tr w) \<and> p \<le> short_tp (tr w)"
    then have b: "hedging_body g ?w1 = take_profit ''SHORT'' g ?w1"
      by (simp add: hedging_body_def)
    then show "process g w [Some p] = fst (take_profit ''SHORT'' g ?w1)"
      unfolding one by simp
    from b show "\<exists>rest. calls (process g w [Some p]) = calls w @ PositionInfo # rest"
      unfolding one using tp [of "''SHORT''"] by simp
  next
    assume "last_direction (tr w) = Some ''SHORT'' \<and> last_units (tr w) < 0 \<and>
      p < long_entry (tr w) \<and> short_tp (tr w) < p"
    then show "process g w [Some p] = ?w1"
      unfolding one by (simp add: hedging_body_def)
  qed
qed

theorem hedge_checked_first_witness:
  "last_direction (tr long_world) = Some ''LONG'' \<and> 0 < last_units (tr long_world) \<and>
   49800 = short_entry (tr long_world) \<and>
   (\<exists>rest. calls (process gw_fill long_world [Some 49800])
             = calls long_world @ CreateOrder SELL \<bar>last_units (tr long_world) * 2\<bar> ''SHORT'' # rest \<and>
           (rest = [] \<or> rest = [SymbolTicker])) \<and>
   last_direction (tr crossed_world) = Some ''LONG'' \<and> 0 < last_units (tr crossed_world) \<and>
   49600 \<le> short_entry (tr crossed_world) \<and> long_tp (tr crossed_world) \<le> 49600 \<and>
   (\<exists>rest. calls (process gw_fill crossed_world [Some 49600])
             = calls crossed_world @ CreateOrder SELL \<bar>last_units (tr crossed_world) * 2\<bar> ''SHORT'' # rest \<and>
           (rest = [] \<or> rest = [SymbolTicker])) \<and>
   short_entry (tr long_world) < 50400 \<and> 50400 = long_tp (tr long_world) \<and>
   process gw_fill long_world [Some 50400]
     = fst (take_profit ''LONG'' gw_fill (long_world\<lparr>tr := (tr long_world)\<lparr>close := 50400\<rparr>\<rparr>)) \<and>
   (\<exists>rest. calls (process gw_fill long_world [Some 50400]) = calls long_world @ PositionInfo # rest) \<and>
   short_entry (tr long_world) < 50000 \<and> 50000 < long_tp (tr long_world) \<and>
   process gw_fill long_world [Some 50000] = long_world\<lparr>tr := (tr long_world)\<lparr>close := 50000\<rparr>\<rparr> \<and>
   last_direction (tr short_world) = Some ''SHORT'' \<and> last_units (tr short_world) < 0 \<and>
   50000 = long_entry (tr short_world) \<and>
   (\<exists>rest. calls (process gw_fill short_world [Some 50000])
             = calls short_world @ CreateOrder BUY \<bar>last_units (tr short_world) * 2\<bar> ''LONG'' # rest \<and>
           (rest = [] \<or> rest = [SymbolTicker])) \<and>
   49401.6 < long_entry (tr short_world) \<and> 49401.6 = short_tp (tr short_world) \<and>
   process gw_fill short_world [Some 49401.6]
     = fst (take_profit ''SHORT'' gw_fill (short_world\<lparr>tr := (tr short_world)\<lparr>close := 49401.6\<rparr>\<rparr>)) \<and>
   (\<exists>rest. calls (process gw_fill short_world [Some 49401.6]) = calls short_world @ PositionInfo # rest) \<and>
   49500 < long_entry (tr short_world) \<and> short_tp (tr short_world) < 49500 \<and>
   process gw_fill short_world [Some 49500] = short_world\<lparr>tr := (tr short_world)\<lparr>close := 49500\<rparr>\<rparr>"
proof -
  have l: "last_direction (tr long_world) = Some ''LONG'' \<and> 0 < last_units (tr long_world)"
    and l1: "49800 = short_entry (tr long_world)"
    and l2: "short_entry (tr long_world) < 50400 \<and> 50400 = long_tp (tr long_world)"
    and l3: "short_entry (tr long_world) < 50000 \<and> 50000 < long_tp (tr long_world)"
    by (simp_all add: long_world_eq)
  have c: "last_direction (tr crossed_world) = Some ''LONG'' \<and> 0 < last_units (tr crossed_world) \<and>
      49600 \<le> short_entry (tr crossed_world) \<and> long_tp (tr crossed_world) \<le> 49600"
    by (simp add: crossed_world_levels)
  have s: "last_direction (tr short_world) = Some ''SHORT'' \<and> last_units (tr short_world) < 0"
    and s1: "50000 = long_entry (tr short_world)"
    and s2: "49401.6 < long_entry (tr short_world) \<and> 49401.6 = short_tp (tr short_world)"
    and s3: "49500 < long_entry (tr short_world) \<and> short_tp (tr short_world) < 49500"
    by (simp_all add: short_world_eq)
  have a1: "\<exists>rest. calls (process gw_fill long_world [Some 49800])
             = calls long_world @ CreateOrder SELL \<bar>last_units (tr long_world) * 2\<bar> ''SHORT'' # rest \<and>
           (rest = [] \<or> rest = [SymbolTicker])"
    by (rule hedge_checked_first [of long_world 49800 gw_fill, THEN conjunct1, rule_format])
       (use l l1 in simp)
  have a2: "\<exists>rest. calls (process gw_fill crossed_world [Some 49600])
             = calls crossed_world @ CreateOrder SELL \<bar>last_units (tr crossed_world) * 2\<bar> ''SHORT'' # rest \<and>
           (rest = [] \<or> rest = [SymbolTicker])"
    by (rule hedge_checked_first [of crossed_world 49600 gw_fill, THEN conjunct1, rule_format])
       (use c in simp)
  have a3: "process gw_fill long_world [Some 50400]
       = fst (take_profit ''LONG'' gw_fill (long_world\<lparr>tr := (tr long_world)\<lparr>close := 50400\<rparr>\<rparr>)) \<and>
     (\<exists>rest. calls (process gw_fill long_world [Some 50400]) = calls long_world @ PositionInfo # rest)"
    by (rule hedge_checked_first [of long_world 50400 gw_fill,
          THEN conjunct2, THEN conjunct1, rule_format])
       (use l l2 in simp)
  have a4: "process gw_fill long_world [Some 50000]
       = long_world\<lparr>tr := (tr long_world)\<lparr>close := 50000\<rparr>\<rparr>"
    by (rule hedge_checked_first [of long_world 50000 gw_fill,
          THEN conjunct2, THEN conjunct2, THEN conjunct1, rule_format])
       (use l l3 in simp)
  have a5: "\<exists>rest. calls (process gw_fill short_world [Some 50000])
             = calls short_world @ CreateOrder BUY \<bar>last_units (tr short_world) * 2\<bar> ''LONG'' # rest \<and>
           (rest = [] \<or> rest = [SymbolTicker])"
    by (rule hedge_checked_first [of short_world 50000 gw_fill,
          THEN conjunct2, THEN conjunct2, THEN conjunct2, THEN conjunct1, rule_format])
       (use s s1 in simp)
  have a6: "process gw_fill short_world [Some 49401.6]
       = fst (take_profit ''SHORT'' gw_fill (short_world\<lparr>tr := (tr short_world)\<lparr>close := 49401.6\<rparr>\<rparr>)) \<and>
     (\<exists>rest. calls (process gw_fill short_world [Some 49401.6]) = calls short_world @ PositionInfo # rest)"
    by (rule hedge_checked_first [of short_world "49401.6" gw_fill,
          THEN conjunct2, THEN conjunct2, THEN conjunct2, THEN conjunct2, THEN conjunct1,
          rule_format])
       (use s s2 in simp)
  have a7: "process gw_fill short_world [Some 49500]
       = short_world\<lparr>tr := (tr short_world)\<lparr>close := 49500\<rparr>\<rparr>"
    by (rule hedge_checked_first [of short_world 49500 gw_fill,
          THEN conjunct2, THEN conjunct2, THEN conjunct2, THEN conjunct2, THEN conjunct2,
          rule_format])
       (use s s3 in simp)
  show ?thesis
    by (intro conjI a1 a2 a3 [THEN conjunct1] a3 [THEN conjunct2] a4 a5
        a6 [THEN conjunct1] a6 [THEN conjunct2] a7
        l [THEN conjunct1] l [THEN conjunct2] l1 l2 [THEN conjunct1] l2 [THEN conjunct2]
        l3 [THEN conjunct1] l3 [THEN conjunct2]
        c [THEN conjunct1] c [THEN conjunct2, THEN conjunct1]
        c [THEN conjunct2, THEN conjunct2, THEN conjunct1]
        c [THEN conjunct2, THEN conjunct2, THEN conjunct2]
        s [THEN conjunct1] s [THEN conjunct2] s1 s2 [THEN conjunct1] s2 [THEN conjunct2]
        s3 [THEN conjunct1] s3 [THEN conjunct2])
qed

subsection \<open>Doubling and restart\<close>

lemma first_trade_success:
  assumes "snd (first_trade g w) = None"
  shows "side (tr w) = ''LONG'' \<Longrightarrow>
           last_units (tr (fst (first_trade g w))) = int_units (tr w) \<and>
           last_direction (tr (fst (first_trade g w))) = Some ''LONG''"
    and "side (tr w) = ''SHORT'' \<Longrightarrow>
           last_units (tr (fst (first_trade g w))) = - int_units (tr w) \<and>
           last_direction (tr (fst (first_trade g w))) = Some ''SHORT''"
  using assms
  by (auto simp: first_trade_def place_order_def get_ticker_def set_levels_long_def
      set_levels_short_def Let_def split: sum.splits)

lemma take_profit_restart:
  assumes "snd (take_profit sd g w) = None"
  obtains w1 where
    "take_profit sd g w =
       first_trade g (w1\<lparr>tr := (tr w)\<lparr>last_units := 0, last_direction := None, side := sd\<rparr>\<rparr>)"
proof -
  obtain w1 r where c: "close_all_positions g w = (w1, r)"
    by (cases "close_all_positions g w")
  have r: "r = None"
    using assms c by (cases r) (simp_all add: take_profit_def)
  have t: "tr w1 = tr w"
    using close_all_positions_tr [of g w] c by simp
  have "take_profit sd g w =
      first_trade g (w1\<lparr>tr := (tr w)\<lparr>last_units := 0, last_direction := None, side := sd\<rparr>\<rparr>)"
    by (simp add: take_profit_def c r t)
  then show thesis by (rule that)
qed

lemma take_profit_success:
  "snd (take_profit ''LONG'' g w) = None \<Longrightarrow>
     last_units (tr (fst (take_profit ''LONG'' g w))) = int_units (tr w) \<and>
     last_direction (tr (fst (take_profit ''LONG'' g w))) = Some ''LONG''"
  "snd (take_profit ''SHORT'' g w) = None \<Longrightarrow>
     last_units (tr (fst (take_profit ''SHORT'' g w))) = - int_units (tr w) \<and>
     last_direction (tr (fst (take_profit ''SHORT'' g w))) = Some ''SHORT''"
proof -
  assume a: "snd (take_profit ''LONG'' g w) = None"
  from a obtain w1 where tp: "take_profit ''LONG'' g w =
      first_trade g (w1\<lparr>tr := (tr w)\<lparr>last_units := 0, last_direction := None, side := ''LONG''\<rparr>\<rparr>)"
    by (rule take_profit_restart)
  from a first_trade_success(1) [of g
      "w1\<lparr>tr := (tr w)\<lparr>last_units := 0, last_direction := None, side := ''LONG''\<rparr>\<rparr>"]
  show "last_units (tr (fst (take_profit ''LONG'' g w))) = int_units (tr w) \<and>
     last_direction (tr (fst (take_profit ''LONG'' g w))) = Some ''LONG''"
    by (simp add: tp)
next
  assume a: "snd (take_profit ''SHORT'' g w) = None"
  from a obtain w1 where tp: "take_profit ''SHORT'' g w =
      first_trade g (w1\<lparr>tr := (tr w)\<lparr>last_units := 0, last_direction := None, side := ''SHORT''\<rparr>\<rparr>)"
    by (rule take_profit_restart)
  from a first_trade_success(2) [of g
      "w1\<lparr>tr := (tr w)\<lparr>last_units := 0, last_direction := None, side := ''SHORT''\<rparr>\<rparr>"]
  show "last_units (tr (fst (take_profit ''SHORT'' g w))) = - int_units (tr w) \<and>
     last_direction (tr (fst (take_profit ''SHORT'' g w))) = Some ''SHORT''"
    by (simp add: tp)
qed

lemma hedge_runs:
  "snd (hedging_body gw_fill (long_world\<lparr>tr := (tr long_world)\<lparr>close := 49800\<rparr>\<rparr>)) = None"
  "snd (hedging_body gw_fill (short_world\<lparr>tr := (tr short_world)\<lparr>close := 50000\<rparr>\<rparr>)) = None"
  by (simp_all add: long_world_eq short_world_eq step_defs cfg_defs gw_fill_def)

lemma restart_runs:
  "snd (hedging_body gw_fill (doubled_world\<lparr>tr := (tr doubled_world)\<lparr>close := 50198.4\<rparr>\<rparr>)) = None"
  "snd (hedging_body gw_fill (short_world\<lparr>tr := (tr short_world)\<lparr>close := 49401.6\<rparr>\<rparr>)) = None"
  by (simp_all add: doubled_world_eq short_world_eq step_defs cfg_defs gw_fill_def)

text \<open>
  Claim C2. A tick whose hedge runs to its end has placed one order for twice the
  magnitude of \<^verbatim>\<open>last_units\<close> on the opposite side and leaves
  \<^verbatim>\<open>last_units\<close> with twice the magnitude it had. A tick whose take-profit
  branch runs to its end leaves \<^verbatim>\<open>last_units\<close> with the magnitude
  \<^verbatim>\<open>base_units\<close>, whatever it was before, for a trader whose \<^verbatim>\<open>int_units\<close>
  is still the positive \<^verbatim>\<open>base_units\<close> it was built with.
\<close>

theorem doubling_and_restart:
  "(last_direction (tr w) = Some ''LONG'' \<and> 0 < last_units (tr w) \<and> p \<le> short_entry (tr w) \<and>
    snd (hedging_body g (w\<lparr>tr := (tr w)\<lparr>close := p\<rparr>\<rparr>)) = None \<longrightarrow>
      calls (process g w [Some p])
        = calls w @ [CreateOrder SELL (2 * \<bar>last_units (tr w)\<bar>) ''SHORT'', SymbolTicker] \<and>
      \<bar>last_units (tr (process g w [Some p]))\<bar> = 2 * \<bar>last_units (tr w)\<bar> \<and>
      last_direction (tr (process g w [Some p])) = Some ''SHORT'') \<and>
   (last_direction (tr w) = Some ''SHORT'' \<and> last_units (tr w) < 0 \<and> long_entry (tr w) \<le> p \<and>
    snd (hedging_body g (w\<lparr>tr := (tr w)\<lparr>close := p\<rparr>\<rparr>)) = None \<longrightarrow>
      calls (process g w [Some p])
        = calls w @ [CreateOrder BUY (2 * \<bar>last_units (tr w)\<bar>) ''LONG'', SymbolTicker] \<and>
      \<bar>last_units (tr (process g w [Some p]))\<bar> = 2 * \<bar>last_units (tr w)\<bar> \<and>
      last_direction (tr (process g w [Some p])) = Some ''LONG'') \<and>
   (last_direction (tr w) = Some ''LONG'' \<and> 0 < last_units (tr w) \<and> short_entry (tr w) < p \<and>
    long_tp (tr w) \<le> p \<and> snd (hedging_body g (w\<lparr>tr := (tr w)\<lparr>close := p\<rparr>\<rparr>)) = None \<and>
    int_units (tr w) = base_units (tr w) \<and> 0 < base_units (tr w) \<longrightarrow>
      \<bar>last_units (tr (process g w [Some p]))\<bar> = base_units (tr w) \<and>
      last_direction (tr (process g w [Some p])) = Some ''LONG'') \<and>
   (last_direction (tr w) = Some ''SHORT'' \<and> last_units (tr w) < 0 \<and> p < long_entry (tr w) \<and>
    p \<le> short_tp (tr w) \<and> snd (hedging_body g (w\<lparr>tr := (tr w)\<lparr>close := p\<rparr>\<rparr>)) = None \<and>
    int_units (tr w) = base_units (tr w) \<and> 0 < base_units (tr w) \<longrightarrow>
      \<bar>last_units (tr (process g w [Some p]))\<bar> = base_units (tr w) \<and>
      last_direction (tr (process g w [Some p])) = Some ''SHORT'')"
proof -
  let ?w1 = "w\<lparr>tr := (tr w)\<lparr>close := p\<rparr>\<rparr>"
  have one: "process g w [Some p] = fst (hedging_body g ?w1)"
    by (simp add: stream_price_fst)
  have hs: "snd (hedge_short g ?w1) = None \<Longrightarrow>
      calls (fst (hedge_short g ?w1))
        = calls w @ [CreateOrder SELL \<bar>last_units (tr w) * 2\<bar> ''SHORT'', SymbolTicker] \<and>
      last_units (tr (fst (hedge_short g ?w1))) = last_units (tr w) * 2 * - 1 \<and>
      last_direction (tr (fst (hedge_short g ?w1))) = Some ''SHORT''"
    by (auto simp: hedge_short_def place_order_def get_ticker_def Let_def split: sum.splits)
  have hl: "snd (hedge_long g ?w1) = None \<Longrightarrow>
      calls (fst (hedge_long g ?w1))
        = calls w @ [CreateOrder BUY \<bar>last_units (tr w) * 2\<bar> ''LONG'', SymbolTicker] \<and>
      last_units (tr (fst (hedge_long g ?w1))) = last_units (tr w) * 2 * - 1 \<and>
      last_direction (tr (fst (hedge_long g ?w1))) = Some ''LONG''"
    by (auto simp: hedge_long_def place_order_def get_ticker_def Let_def split: sum.splits)
  show ?thesis
  proof (intro conjI impI)
    assume a: "last_direction (tr w) = Some ''LONG'' \<and> 0 < last_units (tr w) \<and>
      p \<le> short_entry (tr w) \<and> snd (hedging_body g ?w1) = None"
    then have b: "hedging_body g ?w1 = hedge_short g ?w1"
      by (simp add: hedging_body_def)
    with a have h: "snd (hedge_short g ?w1) = None" by simp
    show "calls (process g w [Some p])
        = calls w @ [CreateOrder SELL (2 * \<bar>last_units (tr w)\<bar>) ''SHORT'', SymbolTicker]"
      unfolding one b using hs [OF h] by (simp add: abs_mult)
    show "\<bar>last_units (tr (process g w [Some p]))\<bar> = 2 * \<bar>last_units (tr w)\<bar>"
      unfolding one b using hs [OF h] by (simp add: abs_mult)
    show "last_direction (tr (process g w [Some p])) = Some ''SHORT''"
      unfolding one b using hs [OF h] by simp
  next
    assume a: "last_direction (tr w) = Some ''SHORT'' \<and> last_units (tr w) < 0 \<and>
      long_entry (tr w) \<le> p \<and> snd (hedging_body g ?w1) = None"
    then have b: "hedging_body g ?w1 = hedge_long g ?w1"
      by (simp add: hedging_body_def)
    with a have h: "snd (hedge_long g ?w1) = None" by simp
    show "calls (process g w [Some p])
        = calls w @ [CreateOrder BUY (2 * \<bar>last_units (tr w)\<bar>) ''LONG'', SymbolTicker]"
      unfolding one b using hl [OF h] by (simp add: abs_mult)
    show "\<bar>last_units (tr (process g w [Some p]))\<bar> = 2 * \<bar>last_units (tr w)\<bar>"
      unfolding one b using hl [OF h] by (simp add: abs_mult)
    show "last_direction (tr (process g w [Some p])) = Some ''LONG''"
      unfolding one b using hl [OF h] by simp
  next
    assume a: "last_direction (tr w) = Some ''LONG'' \<and> 0 < last_units (tr w) \<and>
      short_entry (tr w) < p \<and> long_tp (tr w) \<le> p \<and> snd (hedging_body g ?w1) = None \<and>
      int_units (tr w) = base_units (tr w) \<and> 0 < base_units (tr w)"
    then have b: "hedging_body g ?w1 = take_profit ''LONG'' g ?w1"
      by (simp add: hedging_body_def)
    with a have h: "snd (take_profit ''LONG'' g ?w1) = None" by simp
    show "\<bar>last_units (tr (process g w [Some p]))\<bar> = base_units (tr w)"
      unfolding one b using take_profit_success(1) [OF h] a by simp
    show "last_direction (tr (process g w [Some p])) = Some ''LONG''"
      unfolding one b using take_profit_success(1) [OF h] by simp
  next
    assume a: "last_direction (tr w) = Some ''SHORT'' \<and> last_units (tr w) < 0 \<and>
      p < long_entry (tr w) \<and> p \<le> short_tp (tr w) \<and> snd (hedging_body g ?w1) = None \<and>
      int_units (tr w) = base_units (tr w) \<and> 0 < base_units (tr w)"
    then have b: "hedging_body g ?w1 = take_profit ''SHORT'' g ?w1"
      by (simp add: hedging_body_def)
    with a have h: "snd (take_profit ''SHORT'' g ?w1) = None" by simp
    show "\<bar>last_units (tr (process g w [Some p]))\<bar> = base_units (tr w)"
      unfolding one b using take_profit_success(2) [OF h] a by simp
    show "last_direction (tr (process g w [Some p])) = Some ''SHORT''"
      unfolding one b using take_profit_success(2) [OF h] by simp
  qed
qed

theorem doubling_and_restart_witness:
  "last_direction (tr long_world) = Some ''LONG'' \<and> last_units (tr long_world) = 0.3 \<and>
   49800 \<le> short_entry (tr long_world) \<and>
   snd (hedging_body gw_fill (long_world\<lparr>tr := (tr long_world)\<lparr>close := 49800\<rparr>\<rparr>)) = None \<and>
   calls (process gw_fill long_world [Some 49800])
     = calls long_world @ [CreateOrder SELL (2 * \<bar>last_units (tr long_world)\<bar>) ''SHORT'', SymbolTicker] \<and>
   \<bar>last_units (tr (process gw_fill long_world [Some 49800]))\<bar> = 2 * \<bar>last_units (tr long_world)\<bar> \<and>
   last_direction (tr short_world) = Some ''SHORT'' \<and> last_units (tr short_world) = - 0.6 \<and>
   long_entry (tr short_world) \<le> 50000 \<and>
   snd (hedging_body gw_fill (short_world\<lparr>tr := (tr short_world)\<lparr>close := 50000\<rparr>\<rparr>)) = None \<and>
   calls (process gw_fill short_world [Some 50000])
     = calls short_world @ [CreateOrder BUY (2 * \<bar>last_units (tr short_world)\<bar>) ''LONG'', SymbolTicker] \<and>
   \<bar>last_units (tr (process gw_fill short_world [Some 50000]))\<bar> = 2 * \<bar>last_units (tr short_world)\<bar> \<and>
   last_direction (tr doubled_world) = Some ''LONG'' \<and> last_units (tr doubled_world) = 1.2 \<and>
   short_entry (tr doubled_world) < 50198.4 \<and> long_tp (tr doubled_world) \<le> 50198.4 \<and>
   snd (hedging_body gw_fill (doubled_world\<lparr>tr := (tr doubled_world)\<lparr>close := 50198.4\<rparr>\<rparr>)) = None \<and>
   int_units (tr doubled_world) = base_units (tr doubled_world) \<and>
   base_units (tr doubled_world) = 0.3 \<and>
   \<bar>last_units (tr (process gw_fill doubled_world [Some 50198.4]))\<bar> = base_units (tr doubled_world) \<and>
   49401.6 < long_entry (tr short_world) \<and> 49401.6 \<le> short_tp (tr short_world) \<and>
   snd (hedging_body gw_fill (short_world\<lparr>tr := (tr short_world)\<lparr>close := 49401.6\<rparr>\<rparr>)) = None \<and>
   int_units (tr short_world) = base_units (tr short_world) \<and>
   base_units (tr short_world) = 0.3 \<and>
   \<bar>last_units (tr (process gw_fill short_world [Some 49401.6]))\<bar> = base_units (tr short_world)"
proof -
  have l: "last_direction (tr long_world) = Some ''LONG''" "last_units (tr long_world) = 0.3"
      "49800 \<le> short_entry (tr long_world)"
    by (simp_all add: long_world_eq)
  have s: "last_direction (tr short_world) = Some ''SHORT''" "last_units (tr short_world) = - 0.6"
      "long_entry (tr short_world) \<le> 50000"
      "49401.6 < long_entry (tr short_world)" "49401.6 \<le> short_tp (tr short_world)"
      "int_units (tr short_world) = base_units (tr short_world)"
      "base_units (tr short_world) = 0.3"
    by (simp_all add: short_world_eq cfg_defs)
  have d: "last_direction (tr doubled_world) = Some ''LONG''" "last_units (tr doubled_world) = 1.2"
      "short_entry (tr doubled_world) < 50198.4" "long_tp (tr doubled_world) \<le> 50198.4"
      "int_units (tr doubled_world) = base_units (tr doubled_world)"
      "base_units (tr doubled_world) = 0.3"
    by (simp_all add: doubled_world_eq cfg_defs)
  have a1: "calls (process gw_fill long_world [Some 49800])
       = calls long_world @ [CreateOrder SELL (2 * \<bar>last_units (tr long_world)\<bar>) ''SHORT'', SymbolTicker] \<and>
     \<bar>last_units (tr (process gw_fill long_world [Some 49800]))\<bar> = 2 * \<bar>last_units (tr long_world)\<bar> \<and>
     last_direction (tr (process gw_fill long_world [Some 49800])) = Some ''SHORT''"
    by (rule doubling_and_restart [of long_world 49800 gw_fill, THEN conjunct1, rule_format])
       (use l hedge_runs(1) in simp)
  have a2: "calls (process gw_fill short_world [Some 50000])
       = calls short_world @ [CreateOrder BUY (2 * \<bar>last_units (tr short_world)\<bar>) ''LONG'', SymbolTicker] \<and>
     \<bar>last_units (tr (process gw_fill short_world [Some 50000]))\<bar> = 2 * \<bar>last_units (tr short_world)\<bar> \<and>
     last_direction (tr (process gw_fill short_world [Some 50000])) = Some ''LONG''"
    by (rule doubling_and_restart [of short_world 50000 gw_fill,
          THEN conjunct2, THEN conjunct1, rule_format])
       (use s hedge_runs(2) in simp)
  have a3: "\<bar>last_units (tr (process gw_fill doubled_world [Some 50198.4]))\<bar> = base_units (tr doubled_world) \<and>
     last_direction (tr (process gw_fill doubled_world [Some 50198.4])) = Some ''LONG''"
    by (rule doubling_and_restart [of doubled_world "50198.4" gw_fill,
          THEN conjunct2, THEN conjunct2, THEN conjunct1, rule_format])
       (use d restart_runs(1) in simp)
  have a4: "\<bar>last_units (tr (process gw_fill short_world [Some 49401.6]))\<bar> = base_units (tr short_world) \<and>
     last_direction (tr (process gw_fill short_world [Some 49401.6])) = Some ''SHORT''"
    by (rule doubling_and_restart [of short_world "49401.6" gw_fill,
          THEN conjunct2, THEN conjunct2, THEN conjunct2, rule_format])
       (use s restart_runs(2) in simp)
  show ?thesis
    by (intro conjI l s d hedge_runs restart_runs a1 [THEN conjunct1]
        a1 [THEN conjunct2, THEN conjunct1] a2 [THEN conjunct1]
        a2 [THEN conjunct2, THEN conjunct1] a3 [THEN conjunct1] a4 [THEN conjunct1])
qed

subsection \<open>The sign of the units\<close>

lemma first_trade_sign:
  assumes "0 < int_units (tr w)" and "sign_matches (tr w)"
  shows "sign_matches (tr (fst (first_trade g w))) \<and>
         int_units (tr (fst (first_trade g w))) = int_units (tr w)"
  using assms
  by (auto simp: first_trade_def place_order_def get_ticker_def set_levels_long_def
      set_levels_short_def Let_def sign_matches_def split: sum.splits)

lemma take_profit_sign:
  assumes "0 < int_units (tr w)" and "sign_matches (tr w)"
  shows "sign_matches (tr (fst (take_profit sd g w))) \<and>
         int_units (tr (fst (take_profit sd g w))) = int_units (tr w)"
proof -
  obtain w1 r where c: "close_all_positions g w = (w1, r)"
    by (cases "close_all_positions g w")
  have t: "tr w1 = tr w"
    using close_all_positions_tr [of g w] c by simp
  show ?thesis
  proof (cases r)
    case (Some e)
    with c t assms show ?thesis by (simp add: take_profit_def)
  next
    case None
    let ?w2 = "w1\<lparr>tr := (tr w1)\<lparr>last_units := 0, last_direction := None, side := sd\<rparr>\<rparr>"
    have "0 < int_units (tr ?w2)" and "sign_matches (tr ?w2)"
      using assms(1) t by (simp_all add: sign_matches_def)
    from first_trade_sign [OF this, of g] c None t show ?thesis
      by (simp add: take_profit_def)
  qed
qed

lemma hedge_short_result:
  "tr (fst (hedge_short g w)) = tr w \<or>
   (last_direction (tr (fst (hedge_short g w))) = Some ''SHORT'' \<and>
    last_units (tr (fst (hedge_short g w))) = last_units (tr w) * 2 * - 1 \<and>
    int_units (tr (fst (hedge_short g w))) = int_units (tr w))"
  by (simp add: hedge_short_def place_order_def get_ticker_def Let_def split: sum.splits)

lemma hedge_long_result:
  "tr (fst (hedge_long g w)) = tr w \<or>
   (last_direction (tr (fst (hedge_long g w))) = Some ''LONG'' \<and>
    last_units (tr (fst (hedge_long g w))) = last_units (tr w) * 2 * - 1 \<and>
    int_units (tr (fst (hedge_long g w))) = int_units (tr w))"
  by (simp add: hedge_long_def place_order_def get_ticker_def Let_def split: sum.splits)

lemma hedging_body_sign:
  assumes "0 < int_units (tr w)" and "sign_matches (tr w)"
  shows "sign_matches (tr (fst (hedging_body g w))) \<and>
         int_units (tr (fst (hedging_body g w))) = int_units (tr w)"
proof -
  have hs: "0 < last_units (tr w) \<Longrightarrow>
      sign_matches (tr (fst (hedge_short g w))) \<and>
      int_units (tr (fst (hedge_short g w))) = int_units (tr w)"
    using assms(2) hedge_short_result [of g w]
    by (auto simp: sign_matches_def)
  have hl: "last_units (tr w) < 0 \<Longrightarrow>
      sign_matches (tr (fst (hedge_long g w))) \<and>
      int_units (tr (fst (hedge_long g w))) = int_units (tr w)"
    using assms(2) hedge_long_result [of g w]
    by (auto simp: sign_matches_def)
  show ?thesis
    using hs hl take_profit_sign [OF assms] assms(2)
    by (simp add: hedging_body_def)
qed

lemma stream_price_sign:
  assumes "0 < int_units (tr w)" and "sign_matches (tr w)"
  shows "sign_matches (tr (fst (stream_price g w m))) \<and>
         int_units (tr (fst (stream_price g w m))) = int_units (tr w)"
proof (cases m)
  case None
  with assms show ?thesis by (simp add: stream_price_def)
next
  case (Some c)
  let ?w1 = "w\<lparr>tr := (tr w)\<lparr>close := c\<rparr>\<rparr>"
  have "0 < int_units (tr ?w1)" and "sign_matches (tr ?w1)"
    using assms by (simp_all add: sign_matches_def)
  from hedging_body_sign [OF this, of g] Some show ?thesis
    by (simp add: stream_price_fst)
qed

lemma process_sign:
  "0 < int_units (tr w) \<Longrightarrow> sign_matches (tr w) \<Longrightarrow> sign_matches (tr (process g w ms))"
proof (induction ms arbitrary: w)
  case Nil
  then show ?case by simp
next
  case (Cons m ms)
  from stream_price_sign [OF Cons.prems, of g m]
  have "0 < int_units (tr (fst (stream_price g w m)))"
    and "sign_matches (tr (fst (stream_price g w m)))"
    using Cons.prems(1) by simp_all
  then show ?case by (simp add: Cons.IH)
qed

lemma process_flat:
  "last_direction (tr w) = None \<Longrightarrow> last_units (tr w) = 0 \<Longrightarrow>
   sign_matches (tr (process g w ms))"
proof (induction ms arbitrary: w)
  case Nil
  then show ?case by (simp add: sign_matches_def)
next
  case (Cons m ms)
  have "last_direction (tr (fst (stream_price g w m))) = None \<and>
        last_units (tr (fst (stream_price g w m))) = 0"
    using Cons.prems
    by (cases m) (simp_all add: stream_price_def hedging_loop_def hedging_body_def)
  then show ?case by (simp add: Cons.IH)
qed

text \<open>
  Claim C1. After every sequence of price messages processed from the freshly built
  trader the sign of \<^verbatim>\<open>last_units\<close> agrees with \<^verbatim>\<open>last_direction\<close>; and
  for a trader built with positive \<^verbatim>\<open>units\<close> the same holds after every
  sequence of price messages processed from the state its first trade leaves,
  whatever the client answers.
\<close>

theorem sign_invariant:
  "sign_matches (tr (process g (init_world smb bl units lev sd lea sed lta lsd std ssa) ms)) \<and>
   (0 < units \<longrightarrow>
      sign_matches (tr (process g
        (fst (first_trade g (init_world smb bl units lev sd lea sed lta lsd std ssa))) ms)))"
proof (intro conjI impI)
  let ?w0 = "init_world smb bl units lev sd lea sed lta lsd std ssa"
  show "sign_matches (tr (process g ?w0 ms))"
    by (rule process_flat) (simp_all add: init_world_def init_def)
  assume "0 < units"
  then have u: "0 < int_units (tr ?w0)" and s: "sign_matches (tr ?w0)"
    by (simp_all add: init_world_def init_def sign_matches_def)
  from first_trade_sign [OF u s, of g]
  have "0 < int_units (tr (fst (first_trade g ?w0)))"
    and "sign_matches (tr (fst (first_trade g ?w0)))"
    using u by simp_all
  then show "sign_matches (tr (process g (fst (first_trade g ?w0)) ms))"
    by (rule process_sign)
qed

theorem sign_invariant_witness:
  "(0::real) < 0.3 \<and>
   sign_matches (tr (process gw_fill main_world [Some 49800, Some 50000, Some 50198.4])) \<and>
   sign_matches (tr (process gw_fill (fst (first_trade gw_fill main_world))
     [Some 49800, Some 50000, Some 50198.4]))"
proof -
  have h: "(0::real) < 0.3" by simp
  note T = sign_invariant [of gw_fill "''BTCUSDT''" "''1m''" "0.3" 50 "''LONG''"
      "0.4 / 100" "0.4 / 100" "0.8 / 100" "1.2 / 100" "0.8 / 100" "1.2 / 100"
      "[Some 49800, Some 50000, Some 50198.4]"]
  from T [THEN conjunct1] T [THEN conjunct2, rule_format, OF h] h
  show ?thesis unfolding main_world_def by simp
qed

subsection \<open>The orders of \<^verbatim>\<open>close_all_positions\<close>\<close>

lemma filter_closable_zero:
  "\<forall>pos\<in>set ps. snd pos = 0 \<Longrightarrow> filter closable ps = []"
  by (induction ps) (auto simp: closable_def)

text \<open>
  The claim C9 as it is written fails for a reported entry whose side and sign do not
  go together: for a LONG entry of amount -1 and an entry of side BOTH of amount 0.3
  the method places no order at all.
\<close>

theorem close_all_skips_entries:
  "position_information gw_odd (calls long_world)
     = Inr [Inr (''LONG'', - 1), Inr (''BOTH'', 0.3)] \<and>
   close_all_positions gw_odd long_world
     = (long_world\<lparr>calls := calls long_world @ [PositionInfo]\<rparr>, None)"
  by (simp add: close_all_positions_def get_positions_def gw_odd_def)

text \<open>
  Claim C9, as amended. \<^verbatim>\<open>close_all_positions\<close> assigns no attribute of the
  trader. It asks for the positions once. When every entry can be read and the client
  accepts every order, it places, in the order of the report, exactly the closing
  orders of the entries that are LONG with a positive amount or SHORT with a negative
  amount, each for the magnitude of the amount, and returns normally; every other
  entry gets no order. When the client rejects one of these orders, the method raises
  that exception after the rejected order, and the entries after it get no order; an
  entry that cannot be read ends the loop in the same way. When every reported amount
  is zero it places no order and returns normally; when the position request itself
  raises, it places no order and raises.
\<close>

theorem close_all_positions_orders:
  "tr (fst (close_all_positions g w)) = tr w \<and>
   (position_information g (calls w) = Inr (map Inr ps) \<and>
    accepts g (calls w @ [PositionInfo]) (map closing_order (filter closable ps)) \<longrightarrow>
      close_all_positions g w =
        (w\<lparr>calls := calls w @ PositionInfo # map closing_order (filter closable ps)\<rparr>, None)) \<and>
   (position_information g (calls w) = Inr (map Inr pre @ Inr (type, amt) # post) \<and>
    accepts g (calls w @ [PositionInfo]) (map closing_order (filter closable pre)) \<and>
    closable (type, amt) \<and>
    create_order g (calls w @ PositionInfo # map closing_order (filter closable pre))
      (if type = ''LONG'' then SELL else BUY) \<bar>amt\<bar> type = Inl e \<longrightarrow>
      close_all_positions g w =
        (w\<lparr>calls := calls w @ PositionInfo # map closing_order (filter closable pre)
                       @ [closing_order (type, amt)]\<rparr>, Some e)) \<and>
   (position_information g (calls w) = Inr (map Inr pre @ Inl e # post) \<and>
    accepts g (calls w @ [PositionInfo]) (map closing_order (filter closable pre)) \<longrightarrow>
      close_all_positions g w =
        (w\<lparr>calls := calls w @ PositionInfo # map closing_order (filter closable pre)\<rparr>, Some e)) \<and>
   (position_information g (calls w) = Inr (map Inr ps) \<and> (\<forall>pos\<in>set ps. snd pos = 0) \<longrightarrow>
      close_all_positions g w = (w\<lparr>calls := calls w @ [PositionInfo]\<rparr>, None)) \<and>
   (position_information g (calls w) = Inl e \<longrightarrow>
      close_all_positions g w = (w\<lparr>calls := calls w @ [PositionInfo]\<rparr>, Some e))"
proof (intro conjI impI)
  show "tr (fst (close_all_positions g w)) = tr w"
    by (rule close_all_positions_tr)
next
  assume "position_information g (calls w) = Inr (map Inr ps) \<and>
    accepts g (calls w @ [PositionInfo]) (map closing_order (filter closable ps))"
  then show "close_all_positions g w =
        (w\<lparr>calls := calls w @ PositionInfo # map closing_order (filter closable ps)\<rparr>, None)"
    by (intro close_all_complete) simp_all
next
  assume "position_information g (calls w) = Inr (map Inr pre @ Inr (type, amt) # post) \<and>
    accepts g (calls w @ [PositionInfo]) (map closing_order (filter closable pre)) \<and>
    closable (type, amt) \<and>
    create_order g (calls w @ PositionInfo # map closing_order (filter closable pre))
      (if type = ''LONG'' then SELL else BUY) \<bar>amt\<bar> type = Inl e"
  then show "close_all_positions g w =
        (w\<lparr>calls := calls w @ PositionInfo # map closing_order (filter closable pre)
                       @ [closing_order (type, amt)]\<rparr>, Some e)"
    by (intro close_all_rejected [where post = post]) simp_all
next
  assume "position_information g (calls w) = Inr (map Inr pre @ Inl e # post) \<and>
    accepts g (calls w @ [PositionInfo]) (map closing_order (filter closable pre))"
  then show "close_all_positions g w =
        (w\<lparr>calls := calls w @ PositionInfo # map closing_order (filter closable pre)\<rparr>, Some e)"
    by (intro close_all_unreadable [where post = post]) simp_all
next
  assume a: "position_information g (calls w) = Inr (map Inr ps) \<and> (\<forall>pos\<in>set ps. snd pos = 0)"
  then have "filter closable ps = []"
    by (simp add: filter_closable_zero)
  with a close_all_complete [of g w ps]
  show "close_all_positions g w = (w\<lparr>calls := calls w @ [PositionInfo]\<rparr>, None)"
    by simp
next
  assume "position_information g (calls w) = Inl e"
  then show "close_all_positions g w = (w\<lparr>calls := calls w @ [PositionInfo]\<rparr>, Some e)"
    by (rule close_all_request_fails)
qed

theorem close_all_positions_orders_witness:
  "position_information gw_fill (calls long_world)
     = Inr (map Inr [(''LONG'', 0.3), (''SHORT'', 0)]) \<and>
   accepts gw_fill (calls long_world @ [PositionInfo]) [CreateOrder SELL 0.3 ''LONG''] \<and>
   tr (fst (close_all_positions gw_fill long_world)) = tr long_world \<and>
   close_all_positions gw_fill long_world =
     (long_world\<lparr>calls := calls long_world @ [PositionInfo, CreateOrder SELL 0.3 ''LONG'']\<rparr>, None) \<and>
   position_information gw_buy_only (calls long_world)
     = Inr (map Inr [] @ Inr (''LONG'', 0.3) # [Inr (''SHORT'', - 0.6)]) \<and>
   closable (''LONG'', 0.3) \<and> closable (''SHORT'', - 0.6) \<and>
   create_order gw_buy_only (calls long_world @ [PositionInfo]) SELL 0.3 ''LONG'' = Inl GatewayError \<and>
   close_all_positions gw_buy_only long_world =
     (long_world\<lparr>calls := calls long_world @ [PositionInfo, CreateOrder SELL 0.3 ''LONG'']\<rparr>,
      Some GatewayError) \<and>
   position_information gw_garbled (calls long_world)
     = Inr (map Inr [(''LONG'', 0.3)] @ Inl ParseError # [Inr (''SHORT'', - 0.6)]) \<and>
   accepts gw_garbled (calls long_world @ [PositionInfo]) [CreateOrder SELL 0.3 ''LONG''] \<and>
   close_all_positions gw_garbled long_world =
     (long_world\<lparr>calls := calls long_world @ [PositionInfo, CreateOrder SELL 0.3 ''LONG'']\<rparr>,
      Some ParseError) \<and>
   position_information gw_flat (calls long_world) = Inr (map Inr [(''LONG'', 0), (''SHORT'', 0)]) \<and>
   close_all_positions gw_flat long_world
     = (long_world\<lparr>calls := calls long_world @ [PositionInfo]\<rparr>, None) \<and>
   position_information gw_reject (calls long_world) = Inl GatewayError \<and>
   close_all_positions gw_reject long_world
     = (long_world\<lparr>calls := calls long_world @ [PositionInfo]\<rparr>, Some GatewayError)"
proof -
  note T = close_all_positions_orders
  have pf: "position_information gw_fill (calls long_world)
      = Inr (map Inr [(''LONG'', 0.3), (''SHORT'', 0)])"
    by (simp add: gw_fill_def)
  have af: "accepts gw_fill (calls long_world @ [PositionInfo]) [CreateOrder SELL 0.3 ''LONG'']"
    by (simp add: gw_fill_def)
  have a0: "tr (fst (close_all_positions gw_fill long_world)) = tr long_world"
    by (rule T [THEN conjunct1])
  have a1: "close_all_positions gw_fill long_world =
      (long_world\<lparr>calls := calls long_world @ PositionInfo
         # map closing_order (filter closable [(''LONG'', 0.3), (''SHORT'', 0)])\<rparr>, None)"
    by (rule T [of gw_fill long_world "[(''LONG'', 0.3), (''SHORT'', 0)]",
          THEN conjunct2, THEN conjunct1, rule_format])
       (use pf af in \<open>simp add: closable_def closing_order_def\<close>)
  have pb: "position_information gw_buy_only (calls long_world)
      = Inr (map Inr [] @ Inr (''LONG'', 0.3) # [Inr (''SHORT'', - 0.6)])"
    by (simp add: gw_buy_only_def)
  have cl: "closable (''LONG'', 0.3)" "closable (''SHORT'', - 0.6)"
    by (simp_all add: closable_def)
  have rb: "create_order gw_buy_only (calls long_world @ [PositionInfo]) SELL 0.3 ''LONG''
      = Inl GatewayError"
    by (simp add: gw_buy_only_def)
  have a2: "close_all_positions gw_buy_only long_world =
      (long_world\<lparr>calls := calls long_world @ PositionInfo # map closing_order (filter closable [])
                      @ [closing_order (''LONG'', 0.3)]\<rparr>, Some GatewayError)"
    by (rule T [of gw_buy_only long_world _ "[]" "''LONG''" "0.3" "[Inr (''SHORT'', - 0.6)]"
          GatewayError,
          THEN conjunct2, THEN conjunct2, THEN conjunct1, rule_format])
       (use pb cl rb in simp)
  have pg: "position_information gw_garbled (calls long_world)
      = Inr (map Inr [(''LONG'', 0.3)] @ Inl ParseError # [Inr (''SHORT'', - 0.6)])"
    by (simp add: gw_garbled_def)
  have ag: "accepts gw_garbled (calls long_world @ [PositionInfo]) [CreateOrder SELL 0.3 ''LONG'']"
    by (simp add: gw_garbled_def)
  have a3: "close_all_positions gw_garbled long_world =
      (long_world\<lparr>calls := calls long_world @ PositionInfo
         # map closing_order (filter closable [(''LONG'', 0.3)])\<rparr>, Some ParseError)"
    by (rule T [of gw_garbled long_world _ "[(''LONG'', 0.3)]" _ _ "[Inr (''SHORT'', - 0.6)]"
          ParseError,
          THEN conjunct2, THEN conjunct2, THEN conjunct2, THEN conjunct1, rule_format])
       (use pg ag in \<open>simp add: closable_def closing_order_def\<close>)
  have pz: "position_information gw_flat (calls long_world)
      = Inr (map Inr [(''LONG'', 0), (''SHORT'', 0)])"
    by (simp add: gw_flat_def)
  have a4: "close_all_positions gw_flat long_world
      = (long_world\<lparr>calls := calls long_world @ [PositionInfo]\<rparr>, None)"
    by (rule T [of gw_flat long_world "[(''LONG'', 0), (''SHORT'', 0)]",
          THEN conjunct2, THEN conjunct2, THEN conjunct2, THEN conjunct2, THEN conjunct1,
          rule_format])
       (use pz in auto)
  have pr: "position_information gw_reject (calls long_world) = Inl GatewayError"
    by (simp add: gw_reject_def)
  have a5: "close_all_positions gw_reject long_world
      = (long_world\<lparr>calls := calls long_world @ [PositionInfo]\<rparr>, Some GatewayError)"
    by (rule T [of gw_reject long_world _ _ _ _ _ GatewayError,
          THEN conjunct2, THEN conjunct2, THEN conjunct2, THEN conjunct2, THEN conjunct2,
          rule_format])
       (rule pr)
  from a1 have a1': "close_all_positions gw_fill long_world =
      (long_world\<lparr>calls := calls long_world @ [PositionInfo, CreateOrder SELL 0.3 ''LONG'']\<rparr>, None)"
    by (simp add: closable_def closing_order_def)
  from a2 have a2': "close_all_positions gw_buy_only long_world =
      (long_world\<lparr>calls := calls long_world @ [PositionInfo, CreateOrder SELL 0.3 ''LONG'']\<rparr>,
       Some GatewayError)"
    by (simp add: closing_order_def)
  from a3 have a3': "close_all_positions gw_garbled long_world =
      (long_world\<lparr>calls := calls long_world @ [PositionInfo, CreateOrder SELL 0.3 ''LONG'']\<rparr>,
       Some ParseError)"
    by (simp add: closable_def closing_order_def)
  show ?thesis
    by (intro conjI pf af a0 a1' pb cl rb a2' pg ag a3' pz a4 pr a5)
qed

end
